theory Spec2Isabelle
  imports Main "HOL-Library.AList"
begin

section \<open>JavaScript values\<close>

text \<open>
  The thunks of \<^verbatim>\<open>src/store/dashboard/thunks.js\<close> move plain JavaScript data between the
  Redux store and Firestore.  A value is one of the JSON-like shapes below; an object is an
  association list in insertion order, read with \<open>map_of\<close>, extended with
  \<open>AList.update\<close> (a new key goes last, as a new property does) and shrunk with
  \<open>AList.delete\<close> (the \<^verbatim>\<open>delete\<close> operator).  The thunks never compute with a number: they
  print it in a template literal or test it for truthiness.  A number is therefore kept as
  the text JavaScript prints for it (\<^verbatim>\<open>String(x)\<close>: plain digits, exponent form from
  \<^verbatim>\<open>1e21\<close> on, \<^verbatim>\<open>NaN\<close>, \<^verbatim>\<open>Infinity\<close>).  Objects that carry members named
  \<^verbatim>\<open>toString\<close> or \<^verbatim>\<open>valueOf\<close> of their own are outside the model.
\<close>

datatype jsval =
    JUndefined
  | JNull
  | JBool bool
  | JNum string
  | JStr string
  | JArr "jsval list"
  | JObj "(string \<times> jsval) list"

type_synonym obj = "(string \<times> jsval) list"

text \<open>An exception: \<^verbatim>\<open>new Error(message)\<close>, or a \<^verbatim>\<open>TypeError\<close> raised by the engine.\<close>

datatype js_error = Error string | TypeError string

fun message :: "js_error \<Rightarrow> string" where
  "message (Error m) = m"
| "message (TypeError m) = m"

text \<open>Truthiness, as tested by \<^verbatim>\<open>!uid\<close> and \<^verbatim>\<open>if (dispatchAction)\<close>.\<close>

fun truthy :: "jsval \<Rightarrow> bool" where
  "truthy JUndefined = False"
| "truthy JNull = False"
| "truthy (JBool b) = b"
| "truthy (JNum printed) = (printed \<noteq> ''0'' \<and> printed \<noteq> ''NaN'')"
| "truthy (JStr s) = (s \<noteq> [])"
| "truthy (JArr xs) = True"
| "truthy (JObj al) = True"

text \<open>Decimal digits of a number, as a template literal prints \<^verbatim>\<open>notes.length + 1\<close>.\<close>

definition digit_char :: "nat \<Rightarrow> char" where
  "digit_char d = ''0123456789'' ! d"

function string_of_nat :: "nat \<Rightarrow> string" where
  "string_of_nat n =
     (if n < 10 then [digit_char n] else string_of_nat (n div 10) @ [digit_char (n mod 10)])"
  by pat_completeness auto
termination
  by (relation "measure id") auto

declare string_of_nat.simps [simp del]

text \<open>Reading a decimal numeral back; used to state that \<open>string_of_nat\<close> loses nothing.\<close>

definition digit_value :: "char \<Rightarrow> nat" where
  "digit_value c = of_char c - 48"

definition nat_of_string :: "string \<Rightarrow> nat" where
  "nat_of_string s = foldl (\<lambda>acc c. 10 * acc + digit_value c) 0 s"

fun join_comma :: "string list \<Rightarrow> string" where
  "join_comma [] = []"
| "join_comma [s] = s"
| "join_comma (s # t # ss) = s @ '','' @ join_comma (t # ss)"

text \<open>String conversion inside a template literal \<^verbatim>\<open>`${v}`\<close>.\<close>

fun toString :: "jsval \<Rightarrow> string" where
  "toString JUndefined = ''undefined''"
| "toString JNull = ''null''"
| "toString (JBool b) = (if b then ''true'' else ''false'')"
| "toString (JNum printed) = printed"
| "toString (JStr s) = s"
| "toString (JArr xs) =
     join_comma (map (\<lambda>x. case x of JUndefined \<Rightarrow> [] | JNull \<Rightarrow> [] | _ \<Rightarrow> toString x) xs)"
| "toString (JObj al) = ''[object Object]''"

text \<open>
  The property read \<^verbatim>\<open>v.id\<close>: a \<^verbatim>\<open>TypeError\<close> on \<^verbatim>\<open>undefined\<close> and \<^verbatim>\<open>null\<close>
  (with the message V8 gives), the member of an object, and \<^verbatim>\<open>undefined\<close> on every other
  value, none of which has a member of that name.
\<close>

fun get_id :: "jsval \<Rightarrow> js_error + jsval" where
  "get_id JUndefined = Inl (TypeError ''Cannot read properties of undefined (reading 'id')'')"
| "get_id JNull = Inl (TypeError ''Cannot read properties of null (reading 'id')'')"
| "get_id (JObj al) = Inr (case map_of al ''id'' of Some v \<Rightarrow> v | None \<Rightarrow> JUndefined)"
| "get_id v = Inr JUndefined"

text \<open>\<^verbatim>\<open>Array.prototype.find\<close> with a callback that may throw: the first element the
  callback accepts, \<^verbatim>\<open>undefined\<close> when there is none.\<close>

fun array_find :: "(jsval \<Rightarrow> js_error + bool) \<Rightarrow> jsval list \<Rightarrow> js_error + jsval" where
  "array_find cb [] = Inr JUndefined"
| "array_find cb (x # xs) =
     (case cb x of
        Inl e \<Rightarrow> Inl e
      | Inr found \<Rightarrow> if found then Inr x else array_find cb xs)"

text \<open>The callback \<^verbatim>\<open>(item) => item.id === name\<close>.\<close>

definition id_is :: "string \<Rightarrow> jsval \<Rightarrow> js_error + bool" where
  "id_is name item = (case get_id item of Inl e \<Rightarrow> Inl e | Inr v \<Rightarrow> Inr (v = JStr name))"

text \<open>
  The call \<^verbatim>\<open>action.payload.find(cb)\<close>.  Only an array has a callable \<^verbatim>\<open>find\<close>; the
  member read throws on \<^verbatim>\<open>undefined\<close> and \<^verbatim>\<open>null\<close>, and the call throws on every other
  value (no value of \<open>jsval\<close> is a function).
\<close>

fun payload_find :: "jsval \<Rightarrow> (jsval \<Rightarrow> js_error + bool) \<Rightarrow> js_error + jsval" where
  "payload_find (JArr items) cb = array_find cb items"
| "payload_find JUndefined cb =
     Inl (TypeError ''Cannot read properties of undefined (reading 'find')'')"
| "payload_find JNull cb = Inl (TypeError ''Cannot read properties of null (reading 'find')'')"
| "payload_find v cb = Inl (TypeError ''action.payload.find is not a function'')"

section \<open>The client state store\<close>

subsection \<open>The heroSection slice (source: the heroSection slice file)\<close>

record hero_info =
  imageSection :: jsval
  textSection :: jsval

record heroSection_state =
  isSaving :: bool
  info :: hero_info

text \<open>
  The case reducer \<^verbatim>\<open>setHeroSectionInfo\<close>.  A reducer that throws leaves the slice as it
  was (the draft is dropped), so the result is either the error or the new slice.
\<close>

definition setHeroSectionInfo :: "jsval \<Rightarrow> heroSection_state \<Rightarrow> js_error + heroSection_state" where
  "setHeroSectionInfo payload state =
     (case payload_find payload (id_is ''imageSection'') of
        Inl e \<Rightarrow> Inl e
      | Inr img \<Rightarrow>
          (case payload_find payload (id_is ''textSection'') of
             Inl e \<Rightarrow> Inl e
           | Inr txt \<Rightarrow>
               Inr (state\<lparr>info := (info state)\<lparr>imageSection := img, textSection := txt\<rparr>\<rparr>)))"

subsection \<open>Actions\<close>

text \<open>One constructor per action creator the thunks import.\<close>

datatype action =
    SavingNewNote
  | SetSaving
  | ResetIsSaving
  | SetCanceling
  | ResetIsCanceling
  | SetNotes "obj list"
  | SetActiveNote obj
  | SetPhotosToActiveNote "string list"
  | HandleError string
  | SetActiveSection jsval
  | SetNavbarInfo jsval
  | SetHeroSectionInfo jsval
  | SetHistoryInfo jsval
  | SetProgramStructureInfo jsval
  | SetExpeditionGroupInfo jsval
  | SetEventsInfo jsval
  | SetOrganizationInfo jsval
  | SetFooterInfo jsval

subsection \<open>The dashboard slice\<close>

record dashboard_state =
  "notes" :: "obj list"
  active :: "obj option"
  isSaving :: bool
  isCanceling :: bool
  errorMessage :: "string option"
  activeSection :: jsval

text \<open>
  Modelled from the spec: the case reducers of \<^verbatim>\<open>dashboardSlice\<close>, which the thunks
  import and which is not among the sources.  Following sections 3, 4 and 6 of the spec:
  \<^verbatim>\<open>savingNewNote\<close> and \<^verbatim>\<open>setSaving\<close> mark the session as saving, \<^verbatim>\<open>resetIsSaving\<close>
  resets that flag, \<^verbatim>\<open>setCanceling\<close> and \<^verbatim>\<open>resetIsCanceling\<close> do the same for the
  canceling flag, \<^verbatim>\<open>setNotes\<close> replaces the whole notes collection, \<^verbatim>\<open>setActiveNote\<close>
  sets the active note, \<^verbatim>\<open>setPhotosToActiveNote\<close> appends the URLs to the active note's
  attachment list, \<^verbatim>\<open>handleError\<close> records the message and \<^verbatim>\<open>setActiveSection\<close> records
  the active section.  Where there is no active note, or it has no attachment list, there
  is nothing to append to and the slice is left as it is.
\<close>

fun dashboardReducer :: "action \<Rightarrow> dashboard_state \<Rightarrow> dashboard_state" where
  "dashboardReducer SavingNewNote s = s\<lparr>isSaving := True\<rparr>"
| "dashboardReducer SetSaving s = s\<lparr>isSaving := True\<rparr>"
| "dashboardReducer ResetIsSaving s = s\<lparr>isSaving := False\<rparr>"
| "dashboardReducer SetCanceling s = s\<lparr>isCanceling := True\<rparr>"
| "dashboardReducer ResetIsCanceling s = s\<lparr>isCanceling := False\<rparr>"
| "dashboardReducer (SetNotes ns) s = s\<lparr>notes := ns\<rparr>"
| "dashboardReducer (SetActiveNote n) s = s\<lparr>active := Some n\<rparr>"
| "dashboardReducer (SetPhotosToActiveNote urls) s =
     (case active s of
        None \<Rightarrow> s
      | Some n \<Rightarrow>
          (case map_of n ''imagesUrls'' of
             Some (JArr old) \<Rightarrow>
               s\<lparr>active := Some (AList.update ''imagesUrls'' (JArr (old @ map JStr urls)) n)\<rparr>
           | _ \<Rightarrow> s))"
| "dashboardReducer (HandleError m) s = s\<lparr>errorMessage := Some m\<rparr>"
| "dashboardReducer (SetActiveSection c) s = s\<lparr>activeSection := c\<rparr>"
| "dashboardReducer a s = s"

subsection \<open>The other landing-page slices and the whole store\<close>

datatype section_key =
  Navbar | History | ProgramStructure | ExpeditionGroup | Events | Organization | Footer

record auth_state =
  uid :: jsval

record store =
  auth :: auth_state
  dashboard :: dashboard_state
  heroSection :: heroSection_state
  sectionInfo :: "section_key \<Rightarrow> jsval"

text \<open>
  Modelled from the spec: the content-set reducers of the seven landing-page slices other
  than heroSection (\<^verbatim>\<open>setNavbarInfo\<close>, \<^verbatim>\<open>setHistoryInfo\<close>, \<^verbatim>\<open>setProgramStructureInfo\<close>,
  \<^verbatim>\<open>setExpeditionGroupInfo\<close>, \<^verbatim>\<open>setEventsInfo\<close>, \<^verbatim>\<open>setOrganizationInfo\<close>,
  \<^verbatim>\<open>setFooterInfo\<close>), none of which is among the sources.  By sections 3 and 4.2 of the
  spec each one applies the fetched content document, whatever its shape, as the content of
  its section.
\<close>

definition setSectionInfo :: "section_key \<Rightarrow> jsval \<Rightarrow> (section_key \<Rightarrow> jsval) \<Rightarrow> section_key \<Rightarrow> jsval" where
  "setSectionInfo k content infos = infos(k := content)"

text \<open>
  The root reducer: every action reaches every slice, and a slice reacts to its own actions
  only.  The heroSection reducer comes from the sources and may throw.
\<close>

fun rootReducer :: "action \<Rightarrow> store \<Rightarrow> js_error + store" where
  "rootReducer (SetHeroSectionInfo p) st =
     (case setHeroSectionInfo p (heroSection st) of
        Inl e \<Rightarrow> Inl e
      | Inr h \<Rightarrow> Inr (st\<lparr>heroSection := h\<rparr>))"
| "rootReducer (SetNavbarInfo p) st = Inr (st\<lparr>sectionInfo := setSectionInfo Navbar p (sectionInfo st)\<rparr>)"
| "rootReducer (SetHistoryInfo p) st = Inr (st\<lparr>sectionInfo := setSectionInfo History p (sectionInfo st)\<rparr>)"
| "rootReducer (SetProgramStructureInfo p) st =
     Inr (st\<lparr>sectionInfo := setSectionInfo ProgramStructure p (sectionInfo st)\<rparr>)"
| "rootReducer (SetExpeditionGroupInfo p) st =
     Inr (st\<lparr>sectionInfo := setSectionInfo ExpeditionGroup p (sectionInfo st)\<rparr>)"
| "rootReducer (SetEventsInfo p) st = Inr (st\<lparr>sectionInfo := setSectionInfo Events p (sectionInfo st)\<rparr>)"
| "rootReducer (SetOrganizationInfo p) st =
     Inr (st\<lparr>sectionInfo := setSectionInfo Organization p (sectionInfo st)\<rparr>)"
| "rootReducer (SetFooterInfo p) st = Inr (st\<lparr>sectionInfo := setSectionInfo Footer p (sectionInfo st)\<rparr>)"
| "rootReducer a st = Inr (st\<lparr>dashboard := dashboardReducer a (dashboard st)\<rparr>)"

section \<open>The world a thunk runs in\<close>

subsection \<open>The remote adapters\<close>

text \<open>
  Firestore, the upload service and the clock are outside the repository.  A thunk sees them
  through the answers they give; \<open>env\<close> holds one answer per request.  The helpers
  \<^verbatim>\<open>loadNotes\<close> and \<^verbatim>\<open>fileUpload\<close> are imported from modules that are not among the
  sources and are taken as parameters in the same way.  The fields \<open>refused_collection\<close> and
  \<open>refused_doc\<close> give the error the SDK throws when it refuses a path as a reference.  The
  last two fields belong to the members the dispatch table inherits from
  \<^verbatim>\<open>Object.prototype\<close>: the error thrown when such a member is called as an action creator
  and its result dispatched, and what the store does with a plain object that reaches
  \<^verbatim>\<open>dispatch\<close> as an action (it throws, or the object is one of the actions below, or no
  reducer reacts to it).  The texts of these errors depend on the SDK, the engine and the
  store.
\<close>

datatype js_file = File string

text \<open>A promise, by the time at which it settles and what it settles to.\<close>

type_synonym 'a promise = "nat \<times> (js_error + 'a)"

record env =
  clock :: string
  newDocumentId :: "string \<Rightarrow> string"
  setDoc_response :: "string \<Rightarrow> obj \<Rightarrow> bool \<Rightarrow> js_error option"
  deleteDoc_response :: "string \<Rightarrow> js_error option"
  getDoc_response :: "string \<Rightarrow> js_error + obj option"
  loadNotes_response :: "jsval \<Rightarrow> js_error + obj list"
  fileUpload_response :: "nat \<Rightarrow> js_file \<Rightarrow> string promise"
  refused_collection :: "string \<Rightarrow> js_error"
  refused_doc :: "string \<Rightarrow> js_error"
  inherited_member_error :: "string \<Rightarrow> js_error"
  dispatch_object :: "obj \<Rightarrow> js_error + action option"

text \<open>The requests a thunk sends, recorded in the order they are issued.\<close>

datatype call =
    SetDoc string obj bool
  | DeleteDoc string
  | GetDoc string
  | LoadNotes jsval
  | FileUpload js_file

text \<open>What \<^verbatim>\<open>dispatch\<close> is given: a plain action, the thunk \<^verbatim>\<open>startLoadingNotes()\<close>, or
  an object that is none of the actions of the model.\<close>

datatype dispatched = Plain action | Thunk_startLoadingNotes | Raw obj

text \<open>
  The world: the store, everything dispatched so far, every request issued so far, the
  answers that reloads dispatched without \<^verbatim>\<open>await\<close> are still waiting for, and the
  rejections of promises that nobody awaits.
\<close>

record world =
  store :: store
  dispatched :: "dispatched list"
  calls :: "call list"
  pending :: "(js_error + obj list) list"
  unhandled :: "js_error list"

subsection \<open>Asynchronous code as state passing with exceptions\<close>

type_synonym 'a prog = "world \<Rightarrow> (js_error + 'a) \<times> world"

definition ret :: "'a \<Rightarrow> 'a prog" where
  "ret x = (\<lambda>w. (Inr x, w))"

definition throw :: "js_error \<Rightarrow> 'a prog" where
  "throw e = (\<lambda>w. (Inl e, w))"

definition bind :: "'a prog \<Rightarrow> ('a \<Rightarrow> 'b prog) \<Rightarrow> 'b prog" where
  "bind m k = (\<lambda>w. case m w of (Inl e, w') \<Rightarrow> (Inl e, w') | (Inr x, w') \<Rightarrow> k x w')"

text \<open>\<^verbatim>\<open>try { m } catch (error) { h error }\<close>\<close>

definition try_catch :: "'a prog \<Rightarrow> (js_error \<Rightarrow> 'a prog) \<Rightarrow> 'a prog" where
  "try_catch m h = (\<lambda>w. case m w of (Inl e, w') \<Rightarrow> h e w' | (Inr x, w') \<Rightarrow> (Inr x, w'))"

text \<open>\<^verbatim>\<open>try { m } finally { f }\<close>: \<open>f\<close> runs on every exit of \<open>m\<close>; the outcome is the one
  of \<open>m\<close> unless \<open>f\<close> itself throws.\<close>

definition try_finally :: "'a prog \<Rightarrow> unit prog \<Rightarrow> 'a prog" where
  "try_finally m f =
     (\<lambda>w. case m w of
             (r, w') \<Rightarrow> (case f w' of (Inl e, w'') \<Rightarrow> (Inl e, w'') | (Inr u, w'') \<Rightarrow> (r, w'')))"

text \<open>A value or an exception computed without touching the world.\<close>

definition lift :: "js_error + 'a \<Rightarrow> 'a prog" where
  "lift r = (\<lambda>w. (r, w))"

definition getState :: "store prog" where
  "getState = (\<lambda>w. (Inr (store w), w))"

text \<open>
  \<^verbatim>\<open>dispatch(action)\<close> runs the root reducer at once; an exception of a reducer comes out
  of \<^verbatim>\<open>dispatch\<close> and leaves the store as it was.
\<close>

definition dispatch :: "action \<Rightarrow> unit prog" where
  "dispatch a =
     (\<lambda>w. let w' = w\<lparr>dispatched := dispatched w @ [Plain a]\<rparr> in
           case rootReducer a (store w) of
             Inl e \<Rightarrow> (Inl e, w')
           | Inr st \<Rightarrow> (Inr (), w'\<lparr>store := st\<rparr>))"

subsection \<open>References\<close>

text \<open>
  \<^verbatim>\<open>collection(FirebaseDB, path)\<close> and \<^verbatim>\<open>doc(FirebaseDB, path)\<close> check the path before
  anything is sent.  The SDK refuses an empty path and a path with two slashes in a row; it
  splits the path at the slashes, drops the empty segments, and wants an odd number of
  segments for a collection and an even number for a document.  A reference is the path
  made of the segments that are left.
\<close>

fun double_slash :: "string \<Rightarrow> bool" where
  "double_slash (a # b # cs) = ((a = CHR ''/'' \<and> b = CHR ''/'') \<or> double_slash (b # cs))"
| "double_slash cs = False"

fun split_slash :: "string \<Rightarrow> string list" where
  "split_slash [] = [[]]"
| "split_slash (c # cs) =
     (if c = CHR ''/'' then [] # split_slash cs
      else (case split_slash cs of [] \<Rightarrow> [[c]] | s # ss \<Rightarrow> (c # s) # ss))"

definition path_segments :: "string \<Rightarrow> string list" where
  "path_segments path = filter (\<lambda>s. s \<noteq> []) (split_slash path)"

fun join_slash :: "string list \<Rightarrow> string" where
  "join_slash [] = []"
| "join_slash [s] = s"
| "join_slash (s # t # ss) = s @ ''/'' @ join_slash (t # ss)"

definition collection :: "env \<Rightarrow> string \<Rightarrow> js_error + string" where
  "collection env path =
     (if path = [] \<or> double_slash path \<or> even (length (path_segments path))
      then Inl (refused_collection env path)
      else Inr (join_slash (path_segments path)))"

definition doc :: "env \<Rightarrow> string \<Rightarrow> js_error + string" where
  "doc env path =
     (if path = [] \<or> double_slash path \<or> odd (length (path_segments path))
      then Inl (refused_doc env path)
      else Inr (join_slash (path_segments path)))"

subsection \<open>Requests\<close>

definition setDoc :: "env \<Rightarrow> string \<Rightarrow> obj \<Rightarrow> bool \<Rightarrow> unit prog" where
  "setDoc env docRef content merge =
     (\<lambda>w. let w' = w\<lparr>calls := calls w @ [SetDoc docRef content merge]\<rparr> in
           case setDoc_response env docRef content merge of
             Some e \<Rightarrow> (Inl e, w')
           | None \<Rightarrow> (Inr (), w'))"

definition deleteDoc :: "env \<Rightarrow> string \<Rightarrow> unit prog" where
  "deleteDoc env docRef =
     (\<lambda>w. let w' = w\<lparr>calls := calls w @ [DeleteDoc docRef]\<rparr> in
           case deleteDoc_response env docRef of
             Some e \<Rightarrow> (Inl e, w')
           | None \<Rightarrow> (Inr (), w'))"

text \<open>\<^verbatim>\<open>getDoc\<close> answers with a snapshot: the fields of the document, or nothing when the
  document does not exist; \<^verbatim>\<open>docSnap.data()\<close> is then \<^verbatim>\<open>undefined\<close>.\<close>

definition getDoc :: "env \<Rightarrow> string \<Rightarrow> (obj option) prog" where
  "getDoc env docRef =
     (\<lambda>w. (getDoc_response env docRef, w\<lparr>calls := calls w @ [GetDoc docRef]\<rparr>))"

fun data :: "obj option \<Rightarrow> jsval" where
  "data None = JUndefined"
| "data (Some al) = JObj al"

text \<open>
  \<^verbatim>\<open>Promise.all\<close>: rejected with the reason of the promise that rejects first in time (the
  earlier one in the array among those that settle together), fulfilled with all values in
  the order of the array when none rejects.
\<close>

fun first_rejection :: "'a promise list \<Rightarrow> (nat \<times> js_error) option" where
  "first_rejection [] = None"
| "first_rejection ((t, Inr v) # ps) = first_rejection ps"
| "first_rejection ((t, Inl e) # ps) =
     (case first_rejection ps of
        None \<Rightarrow> Some (t, e)
      | Some (t', e') \<Rightarrow> if t' < t then Some (t', e') else Some (t, e))"

fun fulfilled :: "'a promise list \<Rightarrow> 'a list" where
  "fulfilled [] = []"
| "fulfilled ((t, Inr v) # ps) = v # fulfilled ps"
| "fulfilled ((t, Inl e) # ps) = fulfilled ps"

definition Promise_all :: "'a promise list \<Rightarrow> js_error + 'a list" where
  "Promise_all ps =
     (case first_rejection ps of Some (t, e) \<Rightarrow> Inl e | None \<Rightarrow> Inr (fulfilled ps))"

text \<open>The loop \<^verbatim>\<open>for (const file of files) fileUploadPromises.push(fileUpload(file))\<close>.\<close>

fun fileUploadPromises :: "env \<Rightarrow> nat \<Rightarrow> js_file list \<Rightarrow> string promise list" where
  "fileUploadPromises env i [] = []"
| "fileUploadPromises env i (f # fs) = fileUpload_response env i f # fileUploadPromises env (Suc i) fs"

definition fileUpload_each :: "env \<Rightarrow> js_file list \<Rightarrow> (string promise list) prog" where
  "fileUpload_each env files =
     (\<lambda>w. (Inr (fileUploadPromises env 0 files), w\<lparr>calls := calls w @ map FileUpload files\<rparr>))"

section \<open>The thunks (source: src/store/dashboard/thunks.js)\<close>

subsection \<open>startLoadingNotes\<close>

text \<open>
  The asynchronous function runs up to its first \<^verbatim>\<open>await\<close> when it is called: it reads the
  uid, throws when the uid is falsy, and otherwise issues \<^verbatim>\<open>loadNotes(uid)\<close>.  The rest
  runs when the answer arrives.  \<open>startLoadingNotes\<close> is the thunk awaited as a whole.
\<close>

definition loadNotes :: "env \<Rightarrow> jsval \<Rightarrow> (js_error + obj list) prog" where
  "loadNotes env u =
     (\<lambda>w. (Inr (loadNotes_response env u), w\<lparr>calls := calls w @ [LoadNotes u]\<rparr>))"

definition startLoadingNotes_begin :: "env \<Rightarrow> (js_error + obj list) prog" where
  "startLoadingNotes_begin env =
     bind getState (\<lambda>st.
       let uid' = uid (auth st) in
       if \<not> truthy uid' then throw (Error ''El UID del usuario no existe!'')
       else loadNotes env uid')"

definition startLoadingNotes_resume :: "js_error + obj list \<Rightarrow> unit prog" where
  "startLoadingNotes_resume answer =
     try_catch
       (bind (lift answer) (\<lambda>notes'. dispatch (SetNotes notes')))
       (\<lambda>error.
          bind (dispatch (HandleError (message error))) (\<lambda>_.
          throw (Error ''Error cargando notas de la DB!'')))"

definition startLoadingNotes :: "env \<Rightarrow> unit prog" where
  "startLoadingNotes env = bind (startLoadingNotes_begin env) startLoadingNotes_resume"

text \<open>
  \<^verbatim>\<open>dispatch(startLoadingNotes())\<close> with no \<^verbatim>\<open>await\<close>, as the other thunks do it: the
  reload starts, the caller goes on at once and never sees how the reload ends.  A reload
  that throws before its request leaves an unhandled rejection; one that has sent its request
  waits in \<open>pending\<close>.
\<close>

definition dispatch_startLoadingNotes :: "env \<Rightarrow> unit prog" where
  "dispatch_startLoadingNotes env =
     (\<lambda>w. case startLoadingNotes_begin env (w\<lparr>dispatched := dispatched w @ [Thunk_startLoadingNotes]\<rparr>) of
             (Inl e, w') \<Rightarrow> (Inr (), w'\<lparr>unhandled := unhandled w' @ [e]\<rparr>)
           | (Inr answer, w') \<Rightarrow> (Inr (), w'\<lparr>pending := pending w' @ [answer]\<rparr>))"

text \<open>The reloads still waiting run to their end, in the order they were started.\<close>

fun run_pending :: "(js_error + obj list) list \<Rightarrow> world \<Rightarrow> world" where
  "run_pending [] w = w"
| "run_pending (answer # rest) w =
     (case startLoadingNotes_resume answer w of
        (Inl e, w') \<Rightarrow> run_pending rest (w'\<lparr>unhandled := unhandled w' @ [e]\<rparr>)
      | (Inr u, w') \<Rightarrow> run_pending rest w')"

definition settle_pending :: "world \<Rightarrow> world" where
  "settle_pending w = run_pending (pending w) (w\<lparr>pending := []\<rparr>)"

subsection \<open>startNewNote\<close>

text \<open>
  The reference \<^verbatim>\<open>doc(collection(FirebaseDB, `${uid}/journal/notes`))\<close> is built before
  the \<^verbatim>\<open>try\<close> block: when the SDK refuses the collection path, the error leaves the thunk
  as it is, past \<^verbatim>\<open>catch\<close> and \<^verbatim>\<open>finally\<close>.  The document of the new reference gets
  the id the SDK generates for it.
\<close>

definition startNewNote :: "env \<Rightarrow> unit prog" where
  "startNewNote env =
     bind getState (\<lambda>st0.
     let notes' = notes (dashboard st0) in
     bind (dispatch SavingNewNote) (\<lambda>_.
     bind getState (\<lambda>st1.
     let uid' = uid (auth st1);
         newNote = [(''title'', JStr (''Nota '' @ string_of_nat (length notes' + 1))),
                    (''body'', JStr (''Body '' @ string_of_nat (length notes' + 1))),
                    (''date'', JStr (clock env)),
                    (''imagesUrls'', JArr [])]
     in
     bind (lift (collection env (toString uid' @ ''/journal/notes''))) (\<lambda>collectionRef.
     let newDoc_id = newDocumentId env (toString uid' @ ''/journal/notes'');
         newDoc = collectionRef @ ''/'' @ newDoc_id
     in
     try_finally
       (try_catch
          (bind (setDoc env newDoc newNote False) (\<lambda>_.
           let newNote = AList.update ''id'' (JStr newDoc_id) newNote in
           bind (dispatch_startLoadingNotes env) (\<lambda>_.
           dispatch (SetActiveNote newNote))))
          (\<lambda>error.
             bind (dispatch (HandleError (message error))) (\<lambda>_.
             throw (Error ''Error guardando nueva entrada en la DB!''))))
       (dispatch ResetIsSaving)))))"

subsection \<open>startSaveNotes\<close>

text \<open>\<^verbatim>\<open>{...activeNote}\<close>: the own members of the note, none for \<^verbatim>\<open>null\<close>.\<close>

fun spread :: "obj option \<Rightarrow> obj" where
  "spread None = []"
| "spread (Some al) = al"

text \<open>The active note as a value: \<^verbatim>\<open>null\<close> when there is none.\<close>

fun note_value :: "obj option \<Rightarrow> jsval" where
  "note_value None = JNull"
| "note_value (Some al) = JObj al"

definition startSaveNotes :: "env \<Rightarrow> unit prog" where
  "startSaveNotes env =
     try_finally
       (try_catch
          (bind (dispatch SetSaving) (\<lambda>_.
           bind getState (\<lambda>st1.
           let uid' = uid (auth st1) in
           bind getState (\<lambda>st2.
           let activeNote = active (dashboard st2);
               noteToFireStore = AList.delete ''id'' (spread activeNote)
           in
           bind (lift (get_id (note_value activeNote))) (\<lambda>activeNote_id.
           bind (lift (doc env (toString uid' @ ''/journal/notes/'' @ toString activeNote_id))) (\<lambda>docRef.
           bind (setDoc env docRef noteToFireStore True) (\<lambda>_.
           dispatch_startLoadingNotes env)))))))
          (\<lambda>error.
             bind (dispatch (HandleError (message error))) (\<lambda>_.
             throw (Error ''Error actualizando Note!!''))))
       (dispatch ResetIsSaving)"

subsection \<open>startUploadingFiles\<close>

definition startUploadingFiles :: "env \<Rightarrow> js_file list \<Rightarrow> unit prog" where
  "startUploadingFiles env files =
     try_finally
       (try_catch
          (bind (dispatch SetSaving) (\<lambda>_.
           bind (fileUpload_each env files) (\<lambda>promises.
           bind (lift (Promise_all promises)) (\<lambda>photosUrls.
           dispatch (SetPhotosToActiveNote photosUrls)))))
          (\<lambda>error.
             bind (dispatch (HandleError (message error))) (\<lambda>_.
             throw (Error ''Error subiendo imagen!!''))))
       (dispatch ResetIsSaving)"

subsection \<open>startDeletingNote\<close>

definition startDeletingNote :: "env \<Rightarrow> unit prog" where
  "startDeletingNote env =
     try_catch
       (bind (dispatch SetSaving) (\<lambda>_.
        bind getState (\<lambda>st1.
        let uid' = uid (auth st1) in
        bind getState (\<lambda>st2.
        let noteActive = active (dashboard st2) in
        bind (lift (get_id (note_value noteActive))) (\<lambda>noteActive_id.
        bind (lift (doc env (toString uid' @ ''/journal/notes/'' @ toString noteActive_id))) (\<lambda>docRef.
        bind (deleteDoc env docRef) (\<lambda>_.
        dispatch_startLoadingNotes env)))))))
       (\<lambda>error.
          bind (dispatch (HandleError (message error))) (\<lambda>_.
          throw (Error ''Error eliminando nota!!'')))"

subsection \<open>resetInfo\<close>

text \<open>
  The table \<^verbatim>\<open>idToDispatchMap\<close> is an object literal with eight members.  The read
  \<^verbatim>\<open>idToDispatchMap[section]\<close> finds one of them, or a member every object inherits from
  \<^verbatim>\<open>Object.prototype\<close> (truthy, and no action creator), or nothing.
\<close>

definition idToDispatchMap :: "(string \<times> (jsval \<Rightarrow> action)) list" where
  "idToDispatchMap =
     [(''navbar'', SetNavbarInfo),
      (''heroSection'', SetHeroSectionInfo),
      (''history'', SetHistoryInfo),
      (''programStructure'', SetProgramStructureInfo),
      (''expeditionGroup'', SetExpeditionGroupInfo),
      (''events'', SetEventsInfo),
      (''organization'', SetOrganizationInfo),
      (''footer'', SetFooterInfo)]"

text \<open>
  The inherited members other than \<^verbatim>\<open>constructor\<close>.  Called as \<^verbatim>\<open>dispatchAction(infoReset)\<close>
  each of them throws, or returns a string or a boolean, which \<^verbatim>\<open>dispatch\<close> refuses
  (\<^verbatim>\<open>__proto__\<close> is no function at all): the call or the dispatch throws whatever the
  content is.
\<close>

definition Object_prototype_members :: "string list" where
  "Object_prototype_members =
     [''hasOwnProperty'', ''isPrototypeOf'', ''propertyIsEnumerable'',
      ''toLocaleString'', ''toString'', ''valueOf'', ''__proto__'',
      ''__defineGetter__'', ''__defineSetter__'', ''__lookupGetter__'', ''__lookupSetter__'']"

datatype member = Handler "jsval \<Rightarrow> action" | Constructor | Inherited | Absent

definition idToDispatchMap_get :: "string \<Rightarrow> member" where
  "idToDispatchMap_get section' =
     (case map_of idToDispatchMap section' of
        Some h \<Rightarrow> Handler h
      | None \<Rightarrow>
          if section' = ''constructor'' then Constructor
          else if section' \<in> set Object_prototype_members then Inherited
          else Absent)"

text \<open>
  \<^verbatim>\<open>Object(infoReset)\<close>, what the inherited \<^verbatim>\<open>constructor\<close> returns: the content itself
  when it is an object, a new empty object for \<^verbatim>\<open>undefined\<close>.
\<close>

fun Object_of :: "jsval \<Rightarrow> obj" where
  "Object_of (JObj al) = al"
| "Object_of v = []"

text \<open>
  \<^verbatim>\<open>dispatch\<close> of a plain object.  The store throws when the object has no \<^verbatim>\<open>type\<close>;
  otherwise the store decides what the object is.
\<close>

definition dispatch_plain_object :: "env \<Rightarrow> obj \<Rightarrow> unit prog" where
  "dispatch_plain_object env al =
     (if map_of al ''type'' = None \<or> map_of al ''type'' = Some JUndefined
      then throw (inherited_member_error env ''constructor'')
      else (case dispatch_object env al of
              Inl e \<Rightarrow> throw e
            | Inr None \<Rightarrow> (\<lambda>w. (Inr (), w\<lparr>dispatched := dispatched w @ [Raw al]\<rparr>))
            | Inr (Some a) \<Rightarrow> dispatch a))"

text \<open>
  The default value of \<open>section\<close> is the empty string and the one of \<open>cancelled\<close> is
  \<^verbatim>\<open>true\<close>; \<^verbatim>\<open>console.log\<close> has no effect on the world.
\<close>

definition resetInfo :: "env \<Rightarrow> string \<Rightarrow> bool \<Rightarrow> unit prog" where
  "resetInfo env section' cancelled =
     try_catch
       (bind (if cancelled then dispatch SetCanceling else ret ()) (\<lambda>_.
        bind (lift (doc env (''er_landing_page/'' @ section'))) (\<lambda>docRef.
        bind (getDoc env docRef) (\<lambda>docSnap.
        let infoReset = data docSnap in
        (case idToDispatchMap_get section' of
           Absent \<Rightarrow> ret ()
         | Inherited \<Rightarrow> throw (inherited_member_error env section')
         | Constructor \<Rightarrow>
             bind (dispatch_plain_object env (Object_of infoReset)) (\<lambda>_.
             bind (dispatch (SetActiveSection infoReset)) (\<lambda>_.
             if cancelled then dispatch ResetIsCanceling else ret ()))
         | Handler dispatchAction \<Rightarrow>
             bind (dispatch (dispatchAction infoReset)) (\<lambda>_.
             bind (dispatch (SetActiveSection infoReset)) (\<lambda>_.
             if cancelled then dispatch ResetIsCanceling else ret ())))))))
       (\<lambda>error.
          bind (dispatch (HandleError (message error))) (\<lambda>_.
          throw (Error ''Error reseteando la informacion!!'')))"

section \<open>Notions the properties are stated with\<close>

text \<open>
  The words used for the heroSection handler: an element "with id \<open>name\<close>" is an
  object whose member \<^verbatim>\<open>id\<close> is that string, and "the first such element" is the first one
  in the order of the sequence, \<^verbatim>\<open>undefined\<close> when there is none.
\<close>

definition has_id :: "string \<Rightarrow> jsval \<Rightarrow> bool" where
  "has_id name item = (case item of JObj al \<Rightarrow> map_of al ''id'' = Some (JStr name) | _ \<Rightarrow> False)"

definition first_with_id :: "string \<Rightarrow> jsval list \<Rightarrow> jsval" where
  "first_with_id name items =
     (case List.find (has_id name) items of Some x \<Rightarrow> x | None \<Rightarrow> JUndefined)"

fun nullish :: "jsval \<Rightarrow> bool" where
  "nullish JUndefined = True"
| "nullish JNull = True"
| "nullish v = False"

subsection \<open>Concrete inputs\<close>

definition example_hero :: heroSection_state where
  "example_hero =
     \<lparr>heroSection_state.isSaving = False,
      info = \<lparr>imageSection = JNull, textSection = JNull\<rparr>\<rparr>"

definition example_items :: "jsval list" where
  "example_items =
     [JObj [(''id'', JStr ''textSection''), (''title'', JStr ''Welcome'')],
      JStr ''imageSection'',
      JObj [(''id'', JStr ''imageSection''), (''src'', JStr ''a.png'')],
      JObj [(''id'', JStr ''imageSection''), (''src'', JStr ''b.png'')]]"

definition example_note :: obj where
  "example_note =
     [(''id'', JStr ''n1''), (''title'', JStr ''Nota 1''), (''body'', JStr ''Body 1''),
      (''date'', JStr ''1/1/2024, 10:00:00''), (''imagesUrls'', JArr [JStr ''a.png''])]"

definition example_store :: store where
  "example_store =
     \<lparr>auth = \<lparr>uid = JStr ''u1''\<rparr>,
      dashboard =
        \<lparr>notes = [example_note], active = Some example_note, isSaving = False,
         isCanceling = False, errorMessage = None, activeSection = JUndefined\<rparr>,
      heroSection = example_hero,
      sectionInfo = (\<lambda>k. JUndefined)\<rparr>"

definition example_world :: world where
  "example_world =
     \<lparr>store = example_store, dispatched = [], calls = [], pending = [], unhandled = []\<rparr>"

text \<open>The same world with nobody signed in.\<close>

definition signed_out_world :: world where
  "signed_out_world =
     example_world\<lparr>store := example_store\<lparr>auth := \<lparr>uid = JUndefined\<rparr>\<rparr>\<rparr>"

text \<open>The same world with an empty uid.\<close>

definition empty_uid_world :: world where
  "empty_uid_world =
     example_world\<lparr>store := example_store\<lparr>auth := \<lparr>uid = JStr []\<rparr>\<rparr>\<rparr>"

text \<open>
  An environment in which every request succeeds; the landing-page documents do not exist,
  and the upload of the file named \<^verbatim>\<open>bad\<close> is the only one that fails.
\<close>

definition example_env :: env where
  "example_env =
     \<lparr>clock = ''2/1/2024, 09:30:00'',
      newDocumentId = (\<lambda>c. ''doc1''),
      setDoc_response = (\<lambda>r c m. None),
      deleteDoc_response = (\<lambda>r. None),
      getDoc_response = (\<lambda>r. Inr None),
      loadNotes_response = (\<lambda>u. Inr []),
      fileUpload_response =
        (\<lambda>i f. case f of File n \<Rightarrow>
                  (i, if n = ''bad'' then Inl (Error ''upload failed'') else Inr (''https://cdn/'' @ n))),
      refused_collection = (\<lambda>p. Error ''Invalid collection reference.''),
      refused_doc = (\<lambda>p. Error ''Invalid document reference.''),
      inherited_member_error = (\<lambda>k. Error ''Actions must be plain objects.''),
      dispatch_object = (\<lambda>al. Inr None)\<rparr>"

text \<open>An environment in which every request fails.\<close>

definition offline_env :: env where
  "offline_env =
     \<lparr>clock = ''2/1/2024, 09:30:00'',
      newDocumentId = (\<lambda>c. ''doc1''),
      setDoc_response = (\<lambda>r c m. Some (Error ''offline'')),
      deleteDoc_response = (\<lambda>r. Some (Error ''offline'')),
      getDoc_response = (\<lambda>r. Inl (Error ''offline'')),
      loadNotes_response = (\<lambda>u. Inl (Error ''offline'')),
      fileUpload_response = (\<lambda>i f. (i, Inl (Error ''offline''))),
      refused_collection = (\<lambda>p. Error ''Invalid collection reference.''),
      refused_doc = (\<lambda>p. Error ''Invalid document reference.''),
      inherited_member_error = (\<lambda>k. Error ''Actions must be plain objects.''),
      dispatch_object = (\<lambda>al. Inr None)\<rparr>"

subsection \<open>Notions of the note operations\<close>

text \<open>The attachment list of the active note, when there is an active note that has one.\<close>

definition attachments :: "dashboard_state \<Rightarrow> jsval list option" where
  "attachments s =
     (case active s of
        None \<Rightarrow> None
      | Some n \<Rightarrow> (case map_of n ''imagesUrls'' of Some (JArr urls) \<Rightarrow> Some urls | _ \<Rightarrow> None))"

text \<open>
  The note \<open>startNewNote\<close> builds when the collection holds \<open>n\<close> notes, and the texts of
  the two paths the thunks build from the uid \<open>u\<close> and the note \<open>n\<close>: expressions of the
  thunks, named so that their runs can be written down.
\<close>

definition newNote_of :: "env \<Rightarrow> nat \<Rightarrow> obj" where
  "newNote_of env n =
     [(''title'', JStr (''Nota '' @ string_of_nat (n + 1))),
      (''body'', JStr (''Body '' @ string_of_nat (n + 1))),
      (''date'', JStr (clock env)),
      (''imagesUrls'', JArr [])]"

definition notes_path :: "jsval \<Rightarrow> string" where
  "notes_path u = toString u @ ''/journal/notes''"

definition note_path :: "jsval \<Rightarrow> obj \<Rightarrow> string" where
  "note_path u n =
     toString u @ ''/journal/notes/'' @
       toString (case map_of n ''id'' of None \<Rightarrow> JUndefined | Some v \<Rightarrow> v)"

text \<open>An id that is a segment of a path: not empty and without a slash.\<close>

definition segment :: "string \<Rightarrow> bool" where
  "segment s \<longleftrightarrow> s \<noteq> [] \<and> CHR ''/'' \<notin> set s"

subsection \<open>Notions of the remote store and of error reports\<close>

text \<open>
  Modelled from the spec: the remote store adapter's \<^verbatim>\<open>setDocument(path, content, {merge})\<close>
  and \<^verbatim>\<open>deleteDocument(path)\<close> of section 6, an external service holding one document per
  path.  A merging write keeps the fields of the stored document that the content does not
  name and sets the fields it names; a write that does not merge, or that finds no document,
  stores the content; the other requests leave the store as it is.
\<close>

type_synonym remote = "string \<Rightarrow> obj option"

fun remote_apply :: "call \<Rightarrow> remote \<Rightarrow> remote" where
  "remote_apply (SetDoc path content merge) r =
     r(path \<mapsto> (case r path of
                    None \<Rightarrow> content
                  | Some old \<Rightarrow> if merge then AList.merge old content else content))"
| "remote_apply (DeleteDoc path) r = r(path := None)"
| "remote_apply c r = r"

text \<open>
  An operation run from the world \<open>w\<close> reports the failure \<open>e\<close> and re-raises under the
  message \<open>msg\<close>: it ends in a new error with that message, it has dispatched
  \<^verbatim>\<open>handleError\<close> with the message of \<open>e\<close>, and the store holds that message.
\<close>

definition reported :: "js_error \<Rightarrow> string \<Rightarrow> world \<Rightarrow> (js_error + unit) \<times> world \<Rightarrow> bool" where
  "reported e msg w res \<longleftrightarrow>
     fst res = Inl (Error msg)
   \<and> Plain (HandleError (message e)) \<in> set (drop (length (dispatched w)) (dispatched (snd res)))
   \<and> errorMessage (dashboard (store (snd res))) = Some (message e)"

definition example_remote :: remote where
  "example_remote =
     (\<lambda>p. if p = ''u1/journal/notes/n1''
          then Some [(''title'', JStr ''old title''), (''pinned'', JBool True)]
          else None)"

section \<open>Properties\<close>

subsection \<open>The heroSection content-set handler\<close>

lemma id_is_has_id: "\<not> nullish item \<Longrightarrow> id_is name item = Inr (has_id name item)"
  by (cases item) (auto simp: id_is_def has_id_def split: option.splits)

lemma array_find_id_is:
  "\<forall>item \<in> set items. \<not> nullish item \<Longrightarrow>
     array_find (id_is name) items = Inr (first_with_id name items)"
  by (induction items) (simp_all add: first_with_id_def id_is_has_id)

lemma payload_find_not_array: "\<forall>items. payload \<noteq> JArr items \<Longrightarrow> isl (payload_find payload cb)"
  by (cases payload) auto

lemma first_with_id_none:
  "\<forall>item \<in> set items. \<not> has_id name item \<Longrightarrow> first_with_id name items = JUndefined"
  by (induction items) (auto simp: first_with_id_def)

lemma first_with_id_first:
  assumes "i < length items" and "has_id name (items ! i)"
    and "\<forall>j < i. \<not> has_id name (items ! j)"
  shows "first_with_id name items = items ! i"
proof -
  have "List.find (has_id name) items = Some (items ! i)"
    using assms by (auto simp: find_Some_iff)
  then show ?thesis
    by (simp add: first_with_id_def)
qed

text \<open>
  C10.  The heroSection content-set handler searches its payload as a sequence.  On a
  payload that is an array with no \<^verbatim>\<open>undefined\<close> or \<^verbatim>\<open>null\<close> element it stores, as
  imageSection, the first element whose id is 'imageSection' and, as textSection, the first
  element whose id is 'textSection'; each field is \<^verbatim>\<open>undefined\<close> when the array has no
  such element (lemma \<open>first_with_id_none\<close>), and the rest of the slice is untouched.  On a
  payload that is not an array the handler throws: it relies on the payload being a
  sequence.
\<close>

theorem setHeroSectionInfo_first_with_id:
  "((\<forall>item \<in> set items. \<not> nullish item) \<longrightarrow>
      setHeroSectionInfo (JArr items) state =
        Inr (state\<lparr>info := (info state)\<lparr>imageSection := first_with_id ''imageSection'' items,
                                          textSection := first_with_id ''textSection'' items\<rparr>\<rparr>))
   \<and> ((\<forall>xs. payload \<noteq> JArr xs) \<longrightarrow> isl (setHeroSectionInfo payload state))"
proof (intro conjI impI)
  assume "\<forall>item \<in> set items. \<not> nullish item"
  then show "setHeroSectionInfo (JArr items) state =
        Inr (state\<lparr>info := (info state)\<lparr>imageSection := first_with_id ''imageSection'' items,
                                          textSection := first_with_id ''textSection'' items\<rparr>\<rparr>)"
    by (simp add: setHeroSectionInfo_def array_find_id_is)
next
  assume "\<forall>xs. payload \<noteq> JArr xs"
  then have "isl (payload_find payload (id_is ''imageSection''))"
    by (rule payload_find_not_array)
  then show "isl (setHeroSectionInfo payload state)"
    by (auto simp: setHeroSectionInfo_def isl_def)
qed

theorem setHeroSectionInfo_first_with_id_witness:
  "setHeroSectionInfo (JArr example_items) example_hero =
     Inr \<lparr>heroSection_state.isSaving = False,
          info = \<lparr>imageSection = JObj [(''id'', JStr ''imageSection''), (''src'', JStr ''a.png'')],
                  textSection = JObj [(''id'', JStr ''textSection''), (''title'', JStr ''Welcome'')]\<rparr>\<rparr>
   \<and> setHeroSectionInfo (JArr []) example_hero =
     Inr \<lparr>heroSection_state.isSaving = False,
          info = \<lparr>imageSection = JUndefined, textSection = JUndefined\<rparr>\<rparr>
   \<and> isl (setHeroSectionInfo JUndefined example_hero)
   \<and> isl (setHeroSectionInfo (JObj [(''imageSection'', JNull)]) example_hero)"
  using setHeroSectionInfo_first_with_id [of example_items example_hero JUndefined]
    setHeroSectionInfo_first_with_id [of "[]" example_hero "JObj [(''imageSection'', JNull)]"]
  by (simp add: first_with_id_def has_id_def example_items_def example_hero_def)

subsection \<open>Running the thunks\<close>

lemmas prog_defs = ret_def throw_def bind_def try_catch_def try_finally_def lift_def getState_def
  setDoc_def deleteDoc_def getDoc_def loadNotes_def fileUpload_each_def

lemmas example_defs = example_world_def example_store_def example_note_def example_hero_def
  example_env_def offline_env_def signed_out_world_def empty_uid_world_def

lemma dispatch_simps [simp]:
  "dispatch SavingNewNote w = (Inr (), w\<lparr>dispatched := dispatched w @ [Plain SavingNewNote],
      store := (store w)\<lparr>dashboard := (dashboard (store w))\<lparr>isSaving := True\<rparr>\<rparr>\<rparr>)"
  "dispatch SetSaving w = (Inr (), w\<lparr>dispatched := dispatched w @ [Plain SetSaving],
      store := (store w)\<lparr>dashboard := (dashboard (store w))\<lparr>isSaving := True\<rparr>\<rparr>\<rparr>)"
  "dispatch ResetIsSaving w = (Inr (), w\<lparr>dispatched := dispatched w @ [Plain ResetIsSaving],
      store := (store w)\<lparr>dashboard := (dashboard (store w))\<lparr>isSaving := False\<rparr>\<rparr>\<rparr>)"
  "dispatch SetCanceling w = (Inr (), w\<lparr>dispatched := dispatched w @ [Plain SetCanceling],
      store := (store w)\<lparr>dashboard := (dashboard (store w))\<lparr>isCanceling := True\<rparr>\<rparr>\<rparr>)"
  "dispatch ResetIsCanceling w = (Inr (), w\<lparr>dispatched := dispatched w @ [Plain ResetIsCanceling],
      store := (store w)\<lparr>dashboard := (dashboard (store w))\<lparr>isCanceling := False\<rparr>\<rparr>\<rparr>)"
  "dispatch (SetNotes ns) w = (Inr (), w\<lparr>dispatched := dispatched w @ [Plain (SetNotes ns)],
      store := (store w)\<lparr>dashboard := (dashboard (store w))\<lparr>notes := ns\<rparr>\<rparr>\<rparr>)"
  "dispatch (SetActiveNote n) w = (Inr (), w\<lparr>dispatched := dispatched w @ [Plain (SetActiveNote n)],
      store := (store w)\<lparr>dashboard := (dashboard (store w))\<lparr>active := Some n\<rparr>\<rparr>\<rparr>)"
  "dispatch (HandleError m) w = (Inr (), w\<lparr>dispatched := dispatched w @ [Plain (HandleError m)],
      store := (store w)\<lparr>dashboard := (dashboard (store w))\<lparr>errorMessage := Some m\<rparr>\<rparr>\<rparr>)"
  "dispatch (SetActiveSection c) w = (Inr (), w\<lparr>dispatched := dispatched w @ [Plain (SetActiveSection c)],
      store := (store w)\<lparr>dashboard := (dashboard (store w))\<lparr>activeSection := c\<rparr>\<rparr>\<rparr>)"
  "dispatch (SetPhotosToActiveNote urls) w =
     (Inr (), w\<lparr>dispatched := dispatched w @ [Plain (SetPhotosToActiveNote urls)],
      store := (store w)\<lparr>dashboard := dashboardReducer (SetPhotosToActiveNote urls) (dashboard (store w))\<rparr>\<rparr>)"
  by (simp_all add: dispatch_def Let_def)

text \<open>What the reload dispatched without \<^verbatim>\<open>await\<close> leaves behind.\<close>

lemma dispatch_startLoadingNotes_run:
  "dispatch_startLoadingNotes env w =
     (Inr (),
      if truthy (uid (auth (store w)))
      then w\<lparr>dispatched := dispatched w @ [Thunk_startLoadingNotes],
              calls := calls w @ [LoadNotes (uid (auth (store w)))],
              pending := pending w @ [loadNotes_response env (uid (auth (store w)))]\<rparr>
      else w\<lparr>dispatched := dispatched w @ [Thunk_startLoadingNotes],
              unhandled := unhandled w @ [Error ''El UID del usuario no existe!'']\<rparr>)"
  by (simp add: dispatch_startLoadingNotes_def startLoadingNotes_begin_def prog_defs Let_def)


subsection \<open>References\<close>

lemma split_slash_segment: "CHR ''/'' \<notin> set s \<Longrightarrow> split_slash s = [s]"
  by (induction s) auto

lemma split_slash_append:
  "CHR ''/'' \<notin> set s \<Longrightarrow> split_slash (s @ CHR ''/'' # r) = s # split_slash r"
  by (induction s) auto

lemma double_slash_append:
  "CHR ''/'' \<notin> set s \<Longrightarrow>
     double_slash (s @ CHR ''/'' # r) = (double_slash (CHR ''/'' # r))"
  by (induction s rule: double_slash.induct) auto

lemma double_slash_segment: "CHR ''/'' \<notin> set s \<Longrightarrow> \<not> double_slash s"
  by (induction s rule: double_slash.induct) auto

text \<open>For a uid and a note id that are segments, the references are the paths as written.\<close>

lemma collection_notes:
  assumes "segment u"
  shows "collection env (notes_path (JStr u)) = Inr (u @ ''/journal/notes'')"
proof -
  have free: "CHR ''/'' \<notin> set u" and ne: "u \<noteq> []"
    using assms by (simp_all add: segment_def)
  have "split_slash (u @ ''/journal/notes'') = [u, ''journal'', ''notes'']"
    using split_slash_append [OF free, of "''journal/notes''"] by simp
  moreover have "\<not> double_slash (u @ ''/journal/notes'')"
    using double_slash_append [OF free, of "''journal/notes''"] by simp
  ultimately show ?thesis
    using ne by (simp add: collection_def notes_path_def path_segments_def)
qed

lemma doc_note:
  assumes "segment u" and "segment k"
  shows "doc env (toString (JStr u) @ ''/journal/notes/'' @ toString (JStr k)) =
           Inr (u @ ''/journal/notes/'' @ k)"
proof -
  have free: "CHR ''/'' \<notin> set u" "CHR ''/'' \<notin> set k" and ne: "u \<noteq> []" "k \<noteq> []"
    using assms by (simp_all add: segment_def)
  have k: "split_slash k = [k]"
    using free(2) by (rule split_slash_segment)
  have "split_slash (''notes/'' @ k) = [''notes'', k]"
    using split_slash_append [of "''notes''" k] k by simp
  then have "split_slash (''journal/notes/'' @ k) = [''journal'', ''notes'', k]"
    using split_slash_append [of "''journal''" "''notes/'' @ k"] by simp
  then have seg: "split_slash (u @ ''/journal/notes/'' @ k) = [u, ''journal'', ''notes'', k]"
    using split_slash_append [OF free(1), of "''journal/notes/'' @ k"] by simp
  have "\<not> double_slash (CHR ''/'' # k)"
    using free(2) ne(2) double_slash_segment [of k] by (cases k) auto
  then have "\<not> double_slash (''notes/'' @ k)"
    using double_slash_append [of "''notes''" k] by simp
  then have "\<not> double_slash (''/journal/notes/'' @ k)"
    using double_slash_append [of "''journal''" "''notes/'' @ k"] by simp
  then have "\<not> double_slash (u @ ''/journal/notes/'' @ k)"
    using double_slash_append [OF free(1), of "''journal/notes/'' @ k"] by simp
  with seg ne show ?thesis
    by (simp add: doc_def path_segments_def)
qed

lemma doc_landing_page:
  assumes "segment s"
  shows "doc env (''er_landing_page/'' @ s) = Inr (''er_landing_page/'' @ s)"
proof -
  have free: "CHR ''/'' \<notin> set s" and ne: "s \<noteq> []"
    using assms by (simp_all add: segment_def)
  have "split_slash (''er_landing_page/'' @ s) = [''er_landing_page'', s]"
    using split_slash_append [of "''er_landing_page''" s] split_slash_segment [OF free] by simp
  moreover have "\<not> double_slash (CHR ''/'' # s)"
    using free ne double_slash_segment [of s] by (cases s) auto
  then have "\<not> double_slash (''er_landing_page/'' @ s)"
    using double_slash_append [of "''er_landing_page''" s] by simp
  ultimately show ?thesis
    using ne by (simp add: doc_def path_segments_def)
qed

text \<open>
  The fringe: an empty uid and the default section are refused; every other falsy uid is
  printed as a word (\<^verbatim>\<open>undefined\<close>, \<^verbatim>\<open>null\<close>, \<^verbatim>\<open>false\<close>, \<^verbatim>\<open>0\<close>, \<^verbatim>\<open>NaN\<close>) and accepted.
\<close>

lemma collection_empty_uid:
  "collection env (notes_path (JStr [])) = Inl (refused_collection env ''/journal/notes'')"
  by (simp add: collection_def notes_path_def path_segments_def)

lemma collection_undefined_uid:
  "collection env (notes_path JUndefined) = Inr ''undefined/journal/notes''"
  "collection env (notes_path JNull) = Inr ''null/journal/notes''"
  by (simp_all add: collection_def notes_path_def path_segments_def)

lemma collection_falsy_uid:
  assumes "\<not> truthy u" and "u \<noteq> JStr []"
  shows "collection env (notes_path u) = Inr (toString u @ ''/journal/notes'')"
proof (cases u)
  case (JNum printed)
  with assms(1) have "printed = ''0'' \<or> printed = ''NaN''"
    by auto
  with JNum show ?thesis
    by (auto simp: collection_def notes_path_def path_segments_def)
qed (use assms in \<open>simp_all add: collection_def notes_path_def path_segments_def\<close>)

lemma doc_empty_section:
  "doc env (''er_landing_page/'' @ []) = Inl (refused_doc env ''er_landing_page/'')"
  by (simp add: doc_def path_segments_def)

subsection \<open>The saving flag\<close>

lemma resume_isSaving:
  "isSaving (dashboard (store (snd (startLoadingNotes_resume answer w)))) =
     isSaving (dashboard (store w))"
  by (cases answer) (simp_all add: startLoadingNotes_resume_def prog_defs)

lemma run_pending_isSaving:
  "isSaving (dashboard (store (run_pending answers w))) = isSaving (dashboard (store w))"
proof (induction answers arbitrary: w)
  case Nil
  then show ?case by simp
next
  case (Cons answer rest)
  obtain r w' where run: "startLoadingNotes_resume answer w = (r, w')"
    by (cases "startLoadingNotes_resume answer w")
  have "isSaving (dashboard (store w')) = isSaving (dashboard (store w))"
    using resume_isSaving [of answer w] run by simp
  then show ?case
    using Cons.IH run by (cases r) simp_all
qed

lemma startDeletingNote_isSaving:
  "isSaving (dashboard (store (snd (startDeletingNote env w))))"
proof (cases "active (dashboard (store w))")
  case None
  then show ?thesis
    by (simp add: startDeletingNote_def prog_defs)
next
  case (Some n)
  show ?thesis
  proof (cases "doc env (note_path (uid (auth (store w))) n)")
    case (Inl e)
    with Some show ?thesis
      by (simp add: startDeletingNote_def prog_defs Let_def note_path_def)
  next
    case (Inr docRef)
    with Some show ?thesis
      by (cases "deleteDoc_response env docRef")
         (simp_all add: startDeletingNote_def prog_defs dispatch_startLoadingNotes_run Let_def
            note_path_def)
  qed
qed

text \<open>
  The thunks with a \<^verbatim>\<open>finally\<close> block leave the flag reset on every path through that
  block.  \<open>startNewNote\<close> sets the flag before it builds its reference, outside the block: a
  reference the SDK refuses leaves the flag set.
\<close>

lemma startNewNote_refused:
  assumes "collection env (notes_path (uid (auth (store w)))) = Inl e"
  shows "startNewNote env w =
     (Inl e,
      w\<lparr>dispatched := dispatched w @ [Plain SavingNewNote],
        store := (store w)\<lparr>dashboard := (dashboard (store w))\<lparr>isSaving := True\<rparr>\<rparr>\<rparr>)"
  using assms by (simp add: startNewNote_def prog_defs Let_def notes_path_def)

lemma startNewNote_resets_isSaving:
  assumes "collection env (notes_path (uid (auth (store w)))) = Inr c"
  shows "\<not> isSaving (dashboard (store (snd (startNewNote env w))))"
proof -
  let ?n = "[(''title'', JStr (''Nota '' @ string_of_nat (length (notes (dashboard (store w))) + 1))),
             (''body'', JStr (''Body '' @ string_of_nat (length (notes (dashboard (store w))) + 1))),
             (''date'', JStr (clock env)),
             (''imagesUrls'', JArr [])]"
  show ?thesis
    using assms
    by (cases "setDoc_response env
                 (c @ ''/'' @ newDocumentId env (toString (uid (auth (store w))) @ ''/journal/notes''))
                 ?n False")
       (simp_all add: startNewNote_def prog_defs dispatch_startLoadingNotes_run Let_def notes_path_def)
qed

lemma startSaveNotes_resets_isSaving:
  "\<not> isSaving (dashboard (store (snd (startSaveNotes env w))))"
proof (cases "active (dashboard (store w))")
  case None
  then show ?thesis
    by (simp add: startSaveNotes_def prog_defs)
next
  case (Some n)
  show ?thesis
  proof (cases "doc env (note_path (uid (auth (store w))) n)")
    case (Inl e)
    with Some show ?thesis
      by (simp add: startSaveNotes_def prog_defs Let_def note_path_def)
  next
    case (Inr docRef)
    with Some show ?thesis
      by (cases "setDoc_response env docRef (AList.delete ''id'' n) True")
         (simp_all add: startSaveNotes_def prog_defs dispatch_startLoadingNotes_run Let_def
            note_path_def)
  qed
qed

lemma startUploadingFiles_resets_isSaving:
  "\<not> isSaving (dashboard (store (snd (startUploadingFiles env files w))))"
  by (cases "Promise_all (fileUploadPromises env 0 files)")
     (simp_all add: startUploadingFiles_def prog_defs)

lemma example_note_doc: "doc env ''u1/journal/notes/n1'' = Inr ''u1/journal/notes/n1''"
  using doc_note [of "''u1''" "''n1''" env] by (simp add: segment_def)

text \<open>
  C1.  The specification asks that the saving flag is false once the outcome of any of the
  five note operations is observed.  \<open>startDeletingNote\<close> sets the flag and has no
  \<^verbatim>\<open>finally\<close> block: on every path, whether the delete succeeds or fails and whether or
  not an active note exists, the flag is still true when the promise settles, and it stays
  true after the reload it started has come back.
\<close>

theorem startDeletingNote_leaves_isSaving:
  "isSaving (dashboard (store (snd (startDeletingNote env w))))
   \<and> isSaving (dashboard (store (settle_pending (snd (startDeletingNote env w)))))"
  by (simp add: settle_pending_def run_pending_isSaving startDeletingNote_isSaving)

theorem startDeletingNote_leaves_isSaving_witness:
  "\<not> isSaving (dashboard (store example_world))
   \<and> fst (startDeletingNote example_env example_world) = Inr ()
   \<and> calls (snd (startDeletingNote example_env example_world)) =
       [DeleteDoc ''u1/journal/notes/n1'', LoadNotes (JStr ''u1'')]
   \<and> isSaving (dashboard (store (snd (startDeletingNote example_env example_world))))
   \<and> isSaving (dashboard (store (settle_pending (snd (startDeletingNote example_env example_world)))))
   \<and> fst (startDeletingNote offline_env example_world) = Inl (Error ''Error eliminando nota!!'')
   \<and> isSaving (dashboard (store (snd (startDeletingNote offline_env example_world))))"
proof -
  have act: "active (dashboard (store example_world)) = Some example_note"
    "uid (auth (store example_world)) = JStr ''u1''" "calls example_world = []"
    by (simp_all add: example_world_def example_store_def)
  have resp: "deleteDoc_response example_env p = None"
    "deleteDoc_response offline_env p = Some (Error ''offline'')" for p
    by (simp_all add: example_env_def offline_env_def)
  have "fst (startDeletingNote example_env example_world) = Inr ()
      \<and> calls (snd (startDeletingNote example_env example_world)) =
          [DeleteDoc ''u1/journal/notes/n1'', LoadNotes (JStr ''u1'')]
      \<and> fst (startDeletingNote offline_env example_world) = Inl (Error ''Error eliminando nota!!'')"
    using example_note_doc [of example_env] example_note_doc [of offline_env]
    by (simp add: startDeletingNote_def prog_defs dispatch_startLoadingNotes_run Let_def
          act resp example_note_def)
  moreover have "\<not> isSaving (dashboard (store example_world))"
    by (simp add: example_defs)
  ultimately show ?thesis
    using startDeletingNote_leaves_isSaving [of example_env example_world]
      startDeletingNote_leaves_isSaving [of offline_env example_world]
    by simp
qed

subsection \<open>Uploading attachments\<close>

lemma SetPhotos_empty: "dashboardReducer (SetPhotosToActiveNote []) s = s"
proof (cases "active s")
  case None
  then show ?thesis by simp
next
  case (Some n)
  show ?thesis
  proof (cases "map_of n ''imagesUrls''")
    case None
    with Some show ?thesis by simp
  next
    case inner: (Some v)
    have "s\<lparr>active := Some n\<rparr> = s"
      using Some by simp
    with Some inner show ?thesis
      by (cases v) (simp_all add: update_triv)
  qed
qed

text \<open>
  C5.  \<open>startUploadingFiles\<close> on the empty sequence of files resolves; it sends no request
  and dispatches \<^verbatim>\<open>setSaving\<close>, \<^verbatim>\<open>setPhotosToActiveNote([])\<close> and \<^verbatim>\<open>resetIsSaving\<close>.
  The middle action changes nothing in the store, so the store at the end is the store at
  the start with the saving flag false, and in between it differs from it in that flag
  only.  Nothing else of the world changes.
\<close>

theorem startUploadingFiles_empty:
  "startUploadingFiles env [] w =
     (Inr (),
      w\<lparr>dispatched := dispatched w @ [Plain SetSaving, Plain (SetPhotosToActiveNote []), Plain ResetIsSaving],
        store := (store w)\<lparr>dashboard := (dashboard (store w))\<lparr>isSaving := False\<rparr>\<rparr>\<rparr>)
   \<and> store (snd (dispatch SetSaving w)) =
       (store w)\<lparr>dashboard := (dashboard (store w))\<lparr>isSaving := True\<rparr>\<rparr>
   \<and> rootReducer (SetPhotosToActiveNote []) (store w) = Inr (store w)"
  by (simp add: startUploadingFiles_def prog_defs Promise_all_def SetPhotos_empty
        del: dashboardReducer.simps)

theorem startUploadingFiles_empty_witness:
  "fst (startUploadingFiles example_env [] example_world) = Inr ()
   \<and> calls (snd (startUploadingFiles example_env [] example_world)) = []
   \<and> dispatched (snd (startUploadingFiles example_env [] example_world)) =
       [Plain SetSaving, Plain (SetPhotosToActiveNote []), Plain ResetIsSaving]
   \<and> store (snd (startUploadingFiles example_env [] example_world)) = example_store"
  using startUploadingFiles_empty [of example_env example_world]
  by (simp add: example_world_def example_store_def)

lemma first_rejection_None: "first_rejection ps = None \<longleftrightarrow> (\<forall>p \<in> set ps. \<not> isl (snd p))"
  by (induction ps rule: first_rejection.induct) (auto split: option.splits)

lemma first_rejection_Some: "first_rejection ps = Some (t, e) \<Longrightarrow> (t, Inl e) \<in> set ps"
  by (induction ps arbitrary: t e rule: first_rejection.induct) (auto split: option.splits if_splits)

lemma fulfilled_all: "\<forall>p \<in> set ps. \<not> isl (snd p) \<Longrightarrow> map Inr (fulfilled ps) = map snd ps"
  by (induction ps rule: fulfilled.induct) auto

lemma length_fileUploadPromises [simp]: "length (fileUploadPromises env k files) = length files"
  by (induction files arbitrary: k) auto

lemma nth_fileUploadPromises:
  "i < length files \<Longrightarrow> fileUploadPromises env k files ! i = fileUpload_response env (k + i) (files ! i)"
proof (induction files arbitrary: k i)
  case Nil
  then show ?case by simp
next
  case (Cons f fs)
  then show ?case by (cases i) auto
qed

lemma Promise_all_rejected:
  assumes "i < length files" and "isl (snd (fileUpload_response env i (files ! i)))"
  shows "\<exists>e j. Promise_all (fileUploadPromises env 0 files) = Inl e \<and> j < length files
           \<and> snd (fileUpload_response env j (files ! j)) = Inl e"
proof -
  let ?ps = "fileUploadPromises env 0 files"
  have "?ps ! i \<in> set ?ps"
    using assms(1) by simp
  then have "first_rejection ?ps \<noteq> None"
    using assms by (auto simp: first_rejection_None nth_fileUploadPromises)
  then obtain t e where fr: "first_rejection ?ps = Some (t, e)"
    by auto
  then have "(t, Inl e) \<in> set ?ps"
    by (rule first_rejection_Some)
  then obtain j where "j < length files" and "?ps ! j = (t, Inl e)"
    by (auto simp: in_set_conv_nth)
  then have "snd (fileUpload_response env j (files ! j)) = Inl e"
    by (simp add: nth_fileUploadPromises)
  with fr \<open>j < length files\<close> show ?thesis
    by (auto simp: Promise_all_def)
qed

lemma Promise_all_fulfilled:
  assumes "\<forall>i < length files. \<not> isl (snd (fileUpload_response env i (files ! i)))"
  shows "\<exists>urls. Promise_all (fileUploadPromises env 0 files) = Inr urls \<and> length urls = length files
           \<and> (\<forall>i < length files. snd (fileUpload_response env i (files ! i)) = Inr (urls ! i))"
proof -
  let ?ps = "fileUploadPromises env 0 files"
  have none: "\<forall>p \<in> set ?ps. \<not> isl (snd p)"
  proof
    fix p assume "p \<in> set ?ps"
    then obtain i where "i < length files" and "p = ?ps ! i"
      by (auto simp: in_set_conv_nth)
    then show "\<not> isl (snd p)"
      using assms by (simp add: nth_fileUploadPromises)
  qed
  then have all: "Promise_all ?ps = Inr (fulfilled ?ps)"
    by (simp add: Promise_all_def first_rejection_None [THEN iffD2])
  have eq: "map Inr (fulfilled ?ps) = map snd ?ps"
    using none by (rule fulfilled_all)
  then have len: "length (fulfilled ?ps) = length files"
    by (metis length_map length_fileUploadPromises)
  have "snd (fileUpload_response env i (files ! i)) = Inr (fulfilled ?ps ! i)" if "i < length files" for i
  proof -
    have "map Inr (fulfilled ?ps) ! i = map snd ?ps ! i"
      using eq by simp
    then show ?thesis
      using that len by (simp add: nth_fileUploadPromises)
  qed
  with all len show ?thesis
    by blast
qed


text \<open>
  C4.  \<open>startUploadingFiles\<close> is all-or-nothing, for every sequence of files.  If at least
  one upload fails, the thunk fails, the error reported is the one of an upload that failed,
  no \<^verbatim>\<open>setPhotosToActiveNote\<close> is dispatched and the active note is what it was.  If every
  upload succeeds, the URLs dispatched are one per file, the i-th URL being the result of
  the i-th file, and they are appended in that order to the attachment list of the active
  note.
\<close>

theorem startUploadingFiles_all_or_nothing:
  "((\<exists>i < length files. isl (snd (fileUpload_response env i (files ! i)))) \<longrightarrow>
      (\<exists>e. fst (startUploadingFiles env files w) = Inl (Error ''Error subiendo imagen!!'')
        \<and> dispatched (snd (startUploadingFiles env files w)) =
            dispatched w @ [Plain SetSaving, Plain (HandleError (message e)), Plain ResetIsSaving]
        \<and> (\<exists>j < length files. snd (fileUpload_response env j (files ! j)) = Inl e)
        \<and> active (dashboard (store (snd (startUploadingFiles env files w)))) =
            active (dashboard (store w))))
   \<and> ((\<forall>i < length files. \<not> isl (snd (fileUpload_response env i (files ! i)))) \<longrightarrow>
      (\<exists>urls. fst (startUploadingFiles env files w) = Inr ()
        \<and> dispatched (snd (startUploadingFiles env files w)) =
            dispatched w @ [Plain SetSaving, Plain (SetPhotosToActiveNote urls), Plain ResetIsSaving]
        \<and> length urls = length files
        \<and> (\<forall>i < length files. snd (fileUpload_response env i (files ! i)) = Inr (urls ! i))
        \<and> (\<forall>old. attachments (dashboard (store w)) = Some old \<longrightarrow>
              attachments (dashboard (store (snd (startUploadingFiles env files w)))) =
                Some (old @ map JStr urls))))"
proof (intro conjI impI)
  assume "\<exists>i < length files. isl (snd (fileUpload_response env i (files ! i)))"
  then obtain e j where rej: "Promise_all (fileUploadPromises env 0 files) = Inl e"
    and j: "j < length files" "snd (fileUpload_response env j (files ! j)) = Inl e"
    using Promise_all_rejected by blast
  have "fst (startUploadingFiles env files w) = Inl (Error ''Error subiendo imagen!!'')
        \<and> dispatched (snd (startUploadingFiles env files w)) =
            dispatched w @ [Plain SetSaving, Plain (HandleError (message e)), Plain ResetIsSaving]
        \<and> active (dashboard (store (snd (startUploadingFiles env files w)))) =
            active (dashboard (store w))"
    using rej by (simp add: startUploadingFiles_def prog_defs)
  with j show "\<exists>e. fst (startUploadingFiles env files w) = Inl (Error ''Error subiendo imagen!!'')
        \<and> dispatched (snd (startUploadingFiles env files w)) =
            dispatched w @ [Plain SetSaving, Plain (HandleError (message e)), Plain ResetIsSaving]
        \<and> (\<exists>j < length files. snd (fileUpload_response env j (files ! j)) = Inl e)
        \<and> active (dashboard (store (snd (startUploadingFiles env files w)))) =
            active (dashboard (store w))"
    by blast
next
  assume "\<forall>i < length files. \<not> isl (snd (fileUpload_response env i (files ! i)))"
  then obtain urls where ok: "Promise_all (fileUploadPromises env 0 files) = Inr urls"
    and len: "length urls = length files"
    and nth: "\<forall>i < length files. snd (fileUpload_response env i (files ! i)) = Inr (urls ! i)"
    using Promise_all_fulfilled by blast
  have run: "fst (startUploadingFiles env files w) = Inr ()
        \<and> dispatched (snd (startUploadingFiles env files w)) =
            dispatched w @ [Plain SetSaving, Plain (SetPhotosToActiveNote urls), Plain ResetIsSaving]"
    using ok by (simp add: startUploadingFiles_def prog_defs)
  have att: "attachments (dashboard (store (snd (startUploadingFiles env files w)))) =
                Some (old @ map JStr urls)" if "attachments (dashboard (store w)) = Some old" for old
    using ok that
    by (auto simp: startUploadingFiles_def prog_defs attachments_def update_conv'
          split: option.splits jsval.splits)
  from run len nth att
  show "\<exists>urls. fst (startUploadingFiles env files w) = Inr ()
        \<and> dispatched (snd (startUploadingFiles env files w)) =
            dispatched w @ [Plain SetSaving, Plain (SetPhotosToActiveNote urls), Plain ResetIsSaving]
        \<and> length urls = length files
        \<and> (\<forall>i < length files. snd (fileUpload_response env i (files ! i)) = Inr (urls ! i))
        \<and> (\<forall>old. attachments (dashboard (store w)) = Some old \<longrightarrow>
              attachments (dashboard (store (snd (startUploadingFiles env files w)))) =
                Some (old @ map JStr urls))"
    by blast
qed

theorem startUploadingFiles_all_or_nothing_witness:
  "(\<exists>i < length [File ''a'', File ''bad'', File ''c''].
       isl (snd (fileUpload_response example_env i ([File ''a'', File ''bad'', File ''c''] ! i))))
   \<and> fst (startUploadingFiles example_env [File ''a'', File ''bad'', File ''c''] example_world) =
       Inl (Error ''Error subiendo imagen!!'')
   \<and> attachments (dashboard (store (snd
         (startUploadingFiles example_env [File ''a'', File ''bad'', File ''c''] example_world)))) =
       Some [JStr ''a.png'']
   \<and> \<not> isl (snd (fileUpload_response example_env 0 (File ''a'')))
   \<and> \<not> isl (snd (fileUpload_response example_env 1 (File ''b'')))
   \<and> fst (startUploadingFiles example_env [File ''a'', File ''b''] example_world) = Inr ()
   \<and> attachments (dashboard (store (snd
         (startUploadingFiles example_env [File ''a'', File ''b''] example_world)))) =
       Some [JStr ''a.png'', JStr ''https://cdn/a'', JStr ''https://cdn/b'']"
proof -
  let ?bad = "[File ''a'', File ''bad'', File ''c'']"
  let ?good = "[File ''a'', File ''b'']"
  have bad: "\<exists>i < length ?bad. isl (snd (fileUpload_response example_env i (?bad ! i)))"
    by (rule exI [of _ 1]) (simp add: example_env_def)
  have good: "\<forall>i < length ?good. \<not> isl (snd (fileUpload_response example_env i (?good ! i)))"
    by (simp add: example_env_def less_Suc_eq)
  have start: "attachments (dashboard (store example_world)) = Some [JStr ''a.png'']"
    by (simp add: attachments_def example_defs)
  from startUploadingFiles_all_or_nothing [of ?bad example_env example_world] bad
  have failed: "fst (startUploadingFiles example_env ?bad example_world) =
        Inl (Error ''Error subiendo imagen!!'')
      \<and> active (dashboard (store (snd (startUploadingFiles example_env ?bad example_world)))) =
        active (dashboard (store example_world))"
    by blast
  from startUploadingFiles_all_or_nothing [of ?good example_env example_world] good start
  obtain urls where fin: "fst (startUploadingFiles example_env ?good example_world) = Inr ()"
    and len: "length urls = length ?good"
    and nth: "\<forall>i < length ?good. snd (fileUpload_response example_env i (?good ! i)) = Inr (urls ! i)"
    and att: "attachments (dashboard (store (snd (startUploadingFiles example_env ?good example_world)))) =
        Some ([JStr ''a.png''] @ map JStr urls)"
    by blast
  have "urls ! 0 = ''https://cdn/a''" and "urls ! 1 = ''https://cdn/b''"
    using nth [rule_format, of 0] nth [rule_format, of 1] by (simp_all add: example_env_def)
  with len have "urls = [''https://cdn/a'', ''https://cdn/b'']"
    by (cases urls; cases "tl urls"; cases "tl (tl urls)") auto
  moreover have "\<not> isl (snd (fileUpload_response example_env 0 (File ''a'')))"
    and "\<not> isl (snd (fileUpload_response example_env 1 (File ''b'')))"
    by (simp_all add: example_env_def)
  ultimately show ?thesis
    using att failed start fin bad by (simp add: attachments_def)
qed

subsection \<open>Creating a note\<close>

lemma digit_value_digit_char: "d < 10 \<Longrightarrow> digit_value (digit_char d) = d"
proof -
  assume "d < 10"
  then have "d \<in> {0, 1, 2, 3, 4, 5, 6, 7, 8, 9}"
    by auto
  then show ?thesis
    by (auto simp: digit_value_def digit_char_def)
qed

lemma nat_of_string_snoc: "nat_of_string (s @ [c]) = 10 * nat_of_string s + digit_value c"
  by (simp add: nat_of_string_def)

lemma nat_of_string_of_nat: "nat_of_string (string_of_nat n) = n"
proof (induction n rule: string_of_nat.induct)
  case (1 n)
  show ?case
  proof (cases "n < 10")
    case True
    then show ?thesis
      by (simp add: string_of_nat.simps [of n] nat_of_string_def digit_value_digit_char)
  next
    case False
    then have "nat_of_string (string_of_nat n) =
        10 * nat_of_string (string_of_nat (n div 10)) + digit_value (digit_char (n mod 10))"
      by (simp add: string_of_nat.simps [of n] nat_of_string_snoc)
    also have "\<dots> = 10 * (n div 10) + n mod 10"
      using False "1.IH" by (simp add: digit_value_digit_char)
    finally show ?thesis by simp
  qed
qed

lemma resume_active:
  "active (dashboard (store (snd (startLoadingNotes_resume answer w)))) = active (dashboard (store w))"
  by (cases answer) (simp_all add: startLoadingNotes_resume_def prog_defs)

lemma run_pending_active:
  "active (dashboard (store (run_pending answers w))) = active (dashboard (store w))"
proof (induction answers arbitrary: w)
  case Nil
  then show ?case by simp
next
  case (Cons answer rest)
  obtain r w' where run: "startLoadingNotes_resume answer w = (r, w')"
    by (cases "startLoadingNotes_resume answer w")
  have "active (dashboard (store w')) = active (dashboard (store w))"
    using resume_active [of answer w] run by simp
  then show ?case
    using Cons.IH run by (cases r) simp_all
qed

lemma startNewNote_rejected:
  assumes "collection env (notes_path (uid (auth (store w)))) = Inr c"
    and "setDoc_response env (c @ ''/'' @ newDocumentId env (notes_path (uid (auth (store w)))))
             (newNote_of env (length (notes (dashboard (store w))))) False = Some e"
  shows "startNewNote env w =
     (Inl (Error ''Error guardando nueva entrada en la DB!''),
      w\<lparr>dispatched := dispatched w @ [Plain SavingNewNote, Plain (HandleError (message e)), Plain ResetIsSaving],
        calls := calls w @ [SetDoc (c @ ''/'' @ newDocumentId env (notes_path (uid (auth (store w)))))
                              (newNote_of env (length (notes (dashboard (store w))))) False],
        store := (store w)\<lparr>dashboard := (dashboard (store w))\<lparr>isSaving := False, errorMessage := Some (message e)\<rparr>\<rparr>\<rparr>)"
  using assms
  by (simp add: startNewNote_def prog_defs Let_def notes_path_def newNote_of_def)

lemma startNewNote_fulfilled:
  assumes "collection env (notes_path (uid (auth (store w)))) = Inr c"
    and "setDoc_response env (c @ ''/'' @ newDocumentId env (notes_path (uid (auth (store w)))))
             (newNote_of env (length (notes (dashboard (store w))))) False = None"
  shows "fst (startNewNote env w) = Inr ()"
    and "dispatched (snd (startNewNote env w)) =
          dispatched w @ [Plain SavingNewNote, Thunk_startLoadingNotes,
            Plain (SetActiveNote (newNote_of env (length (notes (dashboard (store w)))) @
               [(''id'', JStr (newDocumentId env (toString (uid (auth (store w))) @ ''/journal/notes'')))])),
            Plain ResetIsSaving]"
    and "calls (snd (startNewNote env w)) =
          calls w @ SetDoc (c @ ''/'' @ newDocumentId env (notes_path (uid (auth (store w)))))
                      (newNote_of env (length (notes (dashboard (store w))))) False #
            (if truthy (uid (auth (store w))) then [LoadNotes (uid (auth (store w)))] else [])"
    and "active (dashboard (store (snd (startNewNote env w)))) =
          Some (newNote_of env (length (notes (dashboard (store w)))) @
               [(''id'', JStr (newDocumentId env (toString (uid (auth (store w))) @ ''/journal/notes'')))])"
    and "unhandled (snd (startNewNote env w)) =
          unhandled w @ (if truthy (uid (auth (store w))) then [] else [Error ''El UID del usuario no existe!''])"
    and "pending (snd (startNewNote env w)) =
          pending w @ (if truthy (uid (auth (store w))) then [loadNotes_response env (uid (auth (store w)))] else [])"
  using assms
  by (simp_all add: startNewNote_def prog_defs Let_def notes_path_def newNote_of_def
        dispatch_startLoadingNotes_run)

lemma startNewNote_outcome:
  "fst (startNewNote env w) = Inr () \<longleftrightarrow>
     (\<exists>c. collection env (notes_path (uid (auth (store w)))) = Inr c
        \<and> setDoc_response env (c @ ''/'' @ newDocumentId env (notes_path (uid (auth (store w)))))
             (newNote_of env (length (notes (dashboard (store w))))) False = None)"
proof (cases "collection env (notes_path (uid (auth (store w))))")
  case (Inl e)
  then show ?thesis
    using startNewNote_refused [of env w e] by simp
next
  case (Inr c)
  show ?thesis
  proof (cases "setDoc_response env (c @ ''/'' @ newDocumentId env (notes_path (uid (auth (store w)))))
             (newNote_of env (length (notes (dashboard (store w))))) False")
    case None
    with Inr show ?thesis
      using startNewNote_fulfilled(1) [of env w c] by simp
  next
    case (Some e)
    with Inr show ?thesis
      using startNewNote_rejected [of env w c e] by simp
  qed
qed

text \<open>
  C8.  A \<open>startNewNote\<close> that succeeds, started when the collection holds \<open>n\<close> notes, makes
  active a note with title "Nota n+1", body "Body n+1" (in decimal: \<open>nat_of_string_of_nat\<close>),
  the time of the clock, an empty attachment list and the id the store has assigned to the
  new document; that id is not empty when the store does not assign empty ids.  The reload
  of the notes collection is dispatched exactly once, before the active note is set, and the
  note is still the active one after that reload has come back.
\<close>

theorem startNewNote_success:
  assumes "fst (startNewNote env w) = Inr ()"
    and "length (notes (dashboard (store w))) = n"
    and "newDocumentId env (toString (uid (auth (store w))) @ ''/journal/notes'') \<noteq> []"
  shows "\<exists>n' i.
      active (dashboard (store (snd (startNewNote env w)))) = Some n'
    \<and> active (dashboard (store (settle_pending (snd (startNewNote env w))))) = Some n'
    \<and> map_of n' ''title'' = Some (JStr (''Nota '' @ string_of_nat (n + 1)))
    \<and> map_of n' ''body'' = Some (JStr (''Body '' @ string_of_nat (n + 1)))
    \<and> map_of n' ''date'' = Some (JStr (clock env))
    \<and> map_of n' ''imagesUrls'' = Some (JArr [])
    \<and> map_of n' ''id'' = Some (JStr i) \<and> i \<noteq> []
    \<and> i = newDocumentId env (toString (uid (auth (store w))) @ ''/journal/notes'')
    \<and> dispatched (snd (startNewNote env w)) =
        dispatched w @ [Plain SavingNewNote, Thunk_startLoadingNotes, Plain (SetActiveNote n'),
                        Plain ResetIsSaving]
    \<and> count_list (dispatched (snd (startNewNote env w))) Thunk_startLoadingNotes =
        count_list (dispatched w) Thunk_startLoadingNotes + 1"
proof -
  let ?i = "newDocumentId env (toString (uid (auth (store w))) @ ''/journal/notes'')"
  let ?n' = "newNote_of env n @ [(''id'', JStr ?i)]"
  obtain c where coll: "collection env (notes_path (uid (auth (store w)))) = Inr c"
    and ok: "setDoc_response env (c @ ''/'' @ newDocumentId env (notes_path (uid (auth (store w)))))
              (newNote_of env (length (notes (dashboard (store w))))) False = None"
    using assms(1) by (auto simp: startNewNote_outcome)
  have act: "active (dashboard (store (snd (startNewNote env w)))) = Some ?n'"
    using startNewNote_fulfilled(4) [OF coll ok] assms(2) by simp
  have disp: "dispatched (snd (startNewNote env w)) =
        dispatched w @ [Plain SavingNewNote, Thunk_startLoadingNotes, Plain (SetActiveNote ?n'),
                        Plain ResetIsSaving]"
    using startNewNote_fulfilled(2) [OF coll ok] assms(2) by simp
  have later: "active (dashboard (store (settle_pending (snd (startNewNote env w))))) = Some ?n'"
    using act by (simp add: settle_pending_def run_pending_active)
  have fields: "map_of ?n' ''title'' = Some (JStr (''Nota '' @ string_of_nat (n + 1)))
    \<and> map_of ?n' ''body'' = Some (JStr (''Body '' @ string_of_nat (n + 1)))
    \<and> map_of ?n' ''date'' = Some (JStr (clock env))
    \<and> map_of ?n' ''imagesUrls'' = Some (JArr [])
    \<and> map_of ?n' ''id'' = Some (JStr ?i)"
    by (simp add: newNote_of_def)
  have cnt: "count_list (dispatched (snd (startNewNote env w))) Thunk_startLoadingNotes =
        count_list (dispatched w) Thunk_startLoadingNotes + 1"
    by (simp add: disp)
  from act later fields assms(3) disp cnt show ?thesis
    by blast
qed

theorem startNewNote_success_witness:
  "fst (startNewNote example_env example_world) = Inr ()
   \<and> length (notes (dashboard (store example_world))) = 1
   \<and> newDocumentId example_env (toString (uid (auth (store example_world))) @ ''/journal/notes'') \<noteq> []
   \<and> (\<exists>n'. active (dashboard (store (snd (startNewNote example_env example_world)))) = Some n'
         \<and> map_of n' ''title'' = Some (JStr ''Nota 2'')
         \<and> map_of n' ''body'' = Some (JStr ''Body 2'')
         \<and> map_of n' ''imagesUrls'' = Some (JArr [])
         \<and> map_of n' ''id'' = Some (JStr ''doc1''))
   \<and> count_list (dispatched (snd (startNewNote example_env example_world))) Thunk_startLoadingNotes = 1"
proof -
  have "collection example_env (notes_path (uid (auth (store example_world)))) = Inr ''u1/journal/notes''"
    using collection_notes [of "''u1''" example_env]
    by (simp add: segment_def example_world_def example_store_def)
  then have h1: "fst (startNewNote example_env example_world) = Inr ()"
    by (simp add: startNewNote_outcome) (simp add: example_env_def)
  have h2: "length (notes (dashboard (store example_world))) = 1"
    by (simp add: example_world_def example_store_def)
  have h3: "newDocumentId example_env
              (toString (uid (auth (store example_world))) @ ''/journal/notes'') \<noteq> []"
    by (simp add: example_env_def)
  have two: "string_of_nat (1 + 1) = ''2''"
    by (simp add: string_of_nat.simps digit_char_def)
  have none: "count_list (dispatched example_world) Thunk_startLoadingNotes = 0"
    by (simp add: example_world_def)
  from startNewNote_success [OF h1 h2 h3] obtain n' i
    where "active (dashboard (store (snd (startNewNote example_env example_world)))) = Some n'"
      and "map_of n' ''title'' = Some (JStr (''Nota '' @ string_of_nat (1 + 1)))"
      and "map_of n' ''body'' = Some (JStr (''Body '' @ string_of_nat (1 + 1)))"
      and "map_of n' ''imagesUrls'' = Some (JArr [])"
      and "map_of n' ''id'' = Some (JStr i)"
      and "i = newDocumentId example_env
                 (toString (uid (auth (store example_world))) @ ''/journal/notes'')"
      and "count_list (dispatched (snd (startNewNote example_env example_world))) Thunk_startLoadingNotes =
             count_list (dispatched example_world) Thunk_startLoadingNotes + 1"
    by blast
  then show ?thesis
    using h1 h2 h3 two none by (auto simp: example_env_def)
qed

text \<open>
  C2.  The specification says that \<open>startNewNote\<close> without a user id fails with a
  precondition failure and sends no request, as \<open>startLoadingNotes\<close> does.  \<open>startNewNote\<close>
  does not test the uid.  With a falsy uid other than the empty string (\<^verbatim>\<open>undefined\<close>,
  \<^verbatim>\<open>null\<close>, \<^verbatim>\<open>false\<close>, \<^verbatim>\<open>0\<close>, \<^verbatim>\<open>NaN\<close>: each is printed as a path the SDK
  accepts) it sends one request, the write of the new note under the path that starts with
  the text of the uid, and its outcome is the outcome of that write.  Only the reload it
  dispatches tests the uid: that reload is rejected with the missing-uid error before it
  sends anything, and nobody awaits it.  With the empty string as uid the SDK refuses the
  path: nothing is sent, but what leaves the thunk is the error of the SDK, and the saving
  flag stays set (lemma \<open>startNewNote_refused\<close>).
\<close>

theorem startNewNote_without_uid:
  assumes "\<not> truthy (uid (auth (store w)))"
    and "uid (auth (store w)) \<noteq> JStr []"
    and "length (notes (dashboard (store w))) = n"
  shows "\<exists>newDoc n'.
      calls (snd (startNewNote env w)) = calls w @ [SetDoc newDoc n' False]
    \<and> newDoc = toString (uid (auth (store w))) @ ''/journal/notes/'' @
                 newDocumentId env (toString (uid (auth (store w))) @ ''/journal/notes'')
    \<and> map_of n' ''title'' = Some (JStr (''Nota '' @ string_of_nat (n + 1)))
    \<and> (setDoc_response env newDoc n' False = None \<longrightarrow>
          fst (startNewNote env w) = Inr ()
        \<and> unhandled (snd (startNewNote env w)) = unhandled w @ [Error ''El UID del usuario no existe!'']
        \<and> pending (snd (startNewNote env w)) = pending w)
    \<and> (\<forall>e. setDoc_response env newDoc n' False = Some e \<longrightarrow>
          fst (startNewNote env w) = Inl (Error ''Error guardando nueva entrada en la DB!''))"
proof -
  let ?c = "toString (uid (auth (store w))) @ ''/journal/notes''"
  let ?newDoc = "?c @ ''/'' @ newDocumentId env (notes_path (uid (auth (store w))))"
  let ?n' = "newNote_of env n"
  have coll: "collection env (notes_path (uid (auth (store w)))) = Inr ?c"
    using assms(1,2) by (rule collection_falsy_uid)
  have calls: "calls (snd (startNewNote env w)) = calls w @ [SetDoc ?newDoc ?n' False]"
  proof (cases "setDoc_response env ?newDoc ?n' False")
    case None
    then show ?thesis
      using startNewNote_fulfilled(3) [OF coll] assms(1,3) by simp
  next
    case (Some e)
    then show ?thesis
      using startNewNote_rejected [OF coll, of e] assms(3) by simp
  qed
  have ok: "fst (startNewNote env w) = Inr ()
        \<and> unhandled (snd (startNewNote env w)) = unhandled w @ [Error ''El UID del usuario no existe!'']
        \<and> pending (snd (startNewNote env w)) = pending w"
    if "setDoc_response env ?newDoc ?n' False = None"
    using that startNewNote_fulfilled(1,5,6) [OF coll] assms(1,3) by simp
  have bad: "fst (startNewNote env w) = Inl (Error ''Error guardando nueva entrada en la DB!'')"
    if "setDoc_response env ?newDoc ?n' False = Some e" for e
    using that startNewNote_rejected [OF coll, of e] assms(3) by simp
  show ?thesis
  proof (intro exI conjI impI allI)
    show "calls (snd (startNewNote env w)) = calls w @ [SetDoc ?newDoc ?n' False]"
      by (rule calls)
    show "?newDoc = toString (uid (auth (store w))) @ ''/journal/notes/'' @
                 newDocumentId env (toString (uid (auth (store w))) @ ''/journal/notes'')"
      by (simp add: notes_path_def)
    show "map_of ?n' ''title'' = Some (JStr (''Nota '' @ string_of_nat (n + 1)))"
      by (simp add: newNote_of_def)
  qed (use ok bad in simp_all)
qed

theorem startNewNote_without_uid_witness:
  "\<not> truthy (uid (auth (store signed_out_world)))
   \<and> uid (auth (store signed_out_world)) \<noteq> JStr []
   \<and> length (notes (dashboard (store signed_out_world))) = 1
   \<and> (\<exists>n'. calls (snd (startNewNote offline_env signed_out_world)) =
              [SetDoc ''undefined/journal/notes/doc1'' n' False]
         \<and> map_of n' ''title'' = Some (JStr ''Nota 2''))
   \<and> fst (startNewNote offline_env signed_out_world) =
       Inl (Error ''Error guardando nueva entrada en la DB!'')
   \<and> fst (startNewNote example_env signed_out_world) = Inr ()
   \<and> (\<exists>n'. calls (snd (startNewNote example_env signed_out_world)) =
              [SetDoc ''undefined/journal/notes/doc1'' n' False])
   \<and> unhandled (snd (startNewNote example_env signed_out_world)) =
       [Error ''El UID del usuario no existe!'']
   \<and> pending (snd (startNewNote example_env signed_out_world)) = []"
proof -
  have u: "uid (auth (store signed_out_world)) = JUndefined"
    by (simp add: example_defs)
  have h1: "\<not> truthy (uid (auth (store signed_out_world)))"
    by (simp add: u)
  have h2: "uid (auth (store signed_out_world)) \<noteq> JStr []"
    by (simp add: u)
  have h3: "length (notes (dashboard (store signed_out_world))) = 1"
    by (simp add: example_defs)
  have two: "string_of_nat (1 + 1) = ''2''"
    by (simp add: string_of_nat.simps digit_char_def)
  have empty: "calls signed_out_world = []" "unhandled signed_out_world = []"
      "pending signed_out_world = []"
    by (simp_all add: example_defs)
  have ids: "newDocumentId offline_env p = ''doc1''" "newDocumentId example_env p = ''doc1''" for p
    by (simp_all add: offline_env_def example_env_def)
  have off: "setDoc_response offline_env newDoc n' False = Some (Error ''offline'')" for newDoc n'
    by (simp add: offline_env_def)
  have on: "setDoc_response example_env newDoc n' False = None" for newDoc n'
    by (simp add: example_env_def)
  from startNewNote_without_uid [OF h1 h2 h3, of offline_env]
  have failed: "(\<exists>n'. calls (snd (startNewNote offline_env signed_out_world)) =
              [SetDoc ''undefined/journal/notes/doc1'' n' False]
         \<and> map_of n' ''title'' = Some (JStr ''Nota 2''))
     \<and> fst (startNewNote offline_env signed_out_world) =
         Inl (Error ''Error guardando nueva entrada en la DB!'')"
    unfolding ids two empty off u by auto
  from startNewNote_without_uid [OF h1 h2 h3, of example_env]
  have ok: "fst (startNewNote example_env signed_out_world) = Inr ()
        \<and> (\<exists>n'. calls (snd (startNewNote example_env signed_out_world)) =
              [SetDoc ''undefined/journal/notes/doc1'' n' False])
        \<and> unhandled (snd (startNewNote example_env signed_out_world)) =
            [Error ''El UID del usuario no existe!'']
        \<and> pending (snd (startNewNote example_env signed_out_world)) = []"
    unfolding ids empty on u by auto
  from failed ok h1 h2 h3 show ?thesis
    by simp
qed

subsection \<open>Saving the active note\<close>

lemma startSaveNotes_refused:
  assumes "active (dashboard (store w)) = Some n"
    and "doc env (note_path (uid (auth (store w))) n) = Inl e"
  shows "startSaveNotes env w =
     (Inl (Error ''Error actualizando Note!!''),
      w\<lparr>dispatched := dispatched w @ [Plain SetSaving, Plain (HandleError (message e)), Plain ResetIsSaving],
        store := (store w)\<lparr>dashboard := (dashboard (store w))\<lparr>isSaving := False, errorMessage := Some (message e)\<rparr>\<rparr>\<rparr>)"
  using assms
  by (simp add: startSaveNotes_def prog_defs Let_def note_path_def)

lemma startSaveNotes_rejected:
  assumes "active (dashboard (store w)) = Some n"
    and "doc env (note_path (uid (auth (store w))) n) = Inr docRef"
    and "setDoc_response env docRef (AList.delete ''id'' n) True = Some e"
  shows "startSaveNotes env w =
     (Inl (Error ''Error actualizando Note!!''),
      w\<lparr>dispatched := dispatched w @ [Plain SetSaving, Plain (HandleError (message e)), Plain ResetIsSaving],
        calls := calls w @ [SetDoc docRef (AList.delete ''id'' n) True],
        store := (store w)\<lparr>dashboard := (dashboard (store w))\<lparr>isSaving := False, errorMessage := Some (message e)\<rparr>\<rparr>\<rparr>)"
  using assms
  by (simp add: startSaveNotes_def prog_defs Let_def note_path_def)

lemma startSaveNotes_fulfilled:
  assumes "active (dashboard (store w)) = Some n"
    and "doc env (note_path (uid (auth (store w))) n) = Inr docRef"
    and "setDoc_response env docRef (AList.delete ''id'' n) True = None"
  shows "fst (startSaveNotes env w) = Inr ()"
    and "dispatched (snd (startSaveNotes env w)) =
          dispatched w @ [Plain SetSaving, Thunk_startLoadingNotes, Plain ResetIsSaving]"
    and "calls (snd (startSaveNotes env w)) =
          calls w @ SetDoc docRef (AList.delete ''id'' n) True #
            (if truthy (uid (auth (store w))) then [LoadNotes (uid (auth (store w)))] else [])"
    and "active (dashboard (store (snd (startSaveNotes env w)))) = Some n"
  using assms
  by (simp_all add: startSaveNotes_def prog_defs Let_def note_path_def dispatch_startLoadingNotes_run)

text \<open>
  C3.  With an active note that has an id, and a path of uid and note id that the SDK
  accepts as a document reference, \<open>startSaveNotes\<close> sends one write: to that reference
  (the path \<^verbatim>\<open>uid/journal/notes/id\<close> itself when uid and id are segments), with a body that
  has every field of the note except \<^verbatim>\<open>id\<close>, and with the merge option.  Whatever else it
  sends is the reload of the notes.  By the contract of the store a merging write sets the
  fields of the body and keeps every other field of the stored document.  When the SDK
  refuses the path nothing is written (lemma \<open>startSaveNotes_refused\<close>).
\<close>

theorem startSaveNotes_write:
  assumes "active (dashboard (store w)) = Some n" and "map_of n ''id'' = Some i"
    and "doc env (toString (uid (auth (store w))) @ ''/journal/notes/'' @ toString i) = Inr docRef"
  shows "\<exists>body rest.
      calls (snd (startSaveNotes env w)) = calls w @ SetDoc docRef body True # rest
    \<and> docRef = join_slash (path_segments
         (toString (uid (auth (store w))) @ ''/journal/notes/'' @ toString i))
    \<and> (\<forall>u k. uid (auth (store w)) = JStr u \<and> i = JStr k \<and> segment u \<and> segment k \<longrightarrow>
          docRef = u @ ''/journal/notes/'' @ k)
    \<and> map_of body ''id'' = None
    \<and> (\<forall>k. k \<noteq> ''id'' \<longrightarrow> map_of body k = map_of n k)
    \<and> (\<forall>c \<in> set rest. \<exists>u. c = LoadNotes u)
    \<and> (\<forall>remote old. remote docRef = Some old \<longrightarrow>
          (\<exists>new. remote_apply (SetDoc docRef body True) remote docRef = Some new
             \<and> (\<forall>k. map_of new k = (case map_of body k of Some v \<Rightarrow> Some v | None \<Rightarrow> map_of old k))))"
proof -
  let ?body = "AList.delete ''id'' n"
  have ref: "doc env (note_path (uid (auth (store w))) n) = Inr docRef"
    using assms(2,3) by (simp add: note_path_def)
  obtain rest where calls: "calls (snd (startSaveNotes env w)) = calls w @ SetDoc docRef ?body True # rest"
    and rest: "\<forall>c \<in> set rest. \<exists>u. c = LoadNotes u"
  proof (cases "setDoc_response env docRef ?body True")
    case None
    then show ?thesis
      using startSaveNotes_fulfilled(3) [OF assms(1) ref] that by simp
  next
    case (Some e)
    then show ?thesis
      using startSaveNotes_rejected [OF assms(1) ref, of e] that [of "[]"] by simp
  qed
  have p: "docRef = join_slash (path_segments
         (toString (uid (auth (store w))) @ ''/journal/notes/'' @ toString i))"
    using assms(3) by (simp add: doc_def split: if_splits)
  have q: "\<forall>u k. uid (auth (store w)) = JStr u \<and> i = JStr k \<and> segment u \<and> segment k \<longrightarrow>
          docRef = u @ ''/journal/notes/'' @ k"
  proof (intro allI impI)
    fix u k
    assume a: "uid (auth (store w)) = JStr u \<and> i = JStr k \<and> segment u \<and> segment k"
    then have "doc env (toString (JStr u) @ ''/journal/notes/'' @ toString (JStr k)) =
        Inr (u @ ''/journal/notes/'' @ k)"
      using doc_note [of u k env] by simp
    with a assms(3) show "docRef = u @ ''/journal/notes/'' @ k"
      by simp
  qed
  have b1: "map_of ?body ''id'' = None"
    by (simp add: delete_conv')
  have b2: "\<forall>k. k \<noteq> ''id'' \<longrightarrow> map_of ?body k = map_of n k"
    by (simp add: delete_conv')
  have m: "\<forall>remote old. remote docRef = Some old \<longrightarrow>
          (\<exists>new. remote_apply (SetDoc docRef ?body True) remote docRef = Some new
             \<and> (\<forall>k. map_of new k = (case map_of ?body k of Some v \<Rightarrow> Some v | None \<Rightarrow> map_of old k)))"
    by (simp add: merge_conv' map_add_def)
  show ?thesis
    by (intro exI [of _ ?body] exI [of _ rest] conjI)
       (rule calls p q b1 b2 rest m)+
qed

theorem startSaveNotes_write_witness:
  "active (dashboard (store example_world)) = Some example_note
   \<and> map_of example_note ''id'' = Some (JStr ''n1'')
   \<and> doc example_env (toString (uid (auth (store example_world))) @ ''/journal/notes/'' @
        toString (JStr ''n1'')) = Inr ''u1/journal/notes/n1''
   \<and> (\<exists>body rest.
         calls (snd (startSaveNotes example_env example_world)) =
           SetDoc ''u1/journal/notes/n1'' body True # rest
       \<and> map_of body ''id'' = None
       \<and> map_of body ''title'' = Some (JStr ''Nota 1'')
       \<and> (\<exists>new. remote_apply (SetDoc ''u1/journal/notes/n1'' body True) example_remote
                    ''u1/journal/notes/n1'' = Some new
              \<and> map_of new ''pinned'' = Some (JBool True)
              \<and> map_of new ''title'' = Some (JStr ''Nota 1'')))"
proof -
  let ?p = "''u1/journal/notes/n1''"
  have h1: "active (dashboard (store example_world)) = Some example_note"
    by (simp add: example_world_def example_store_def)
  have h2: "map_of example_note ''id'' = Some (JStr ''n1'')"
    by (simp add: example_note_def)
  have h3: "doc example_env (toString (uid (auth (store example_world))) @ ''/journal/notes/'' @
        toString (JStr ''n1'')) = Inr ?p"
    using example_note_doc [of example_env] by (simp add: example_world_def example_store_def)
  from startSaveNotes_write [OF h1 h2 h3] obtain body rest
    where c: "calls (snd (startSaveNotes example_env example_world)) =
                calls example_world @ SetDoc ?p body True # rest"
      and b1: "map_of body ''id'' = None"
      and b2: "\<forall>k. k \<noteq> ''id'' \<longrightarrow> map_of body k = map_of example_note k"
      and m: "\<forall>remote old. remote ?p = Some old \<longrightarrow>
          (\<exists>new. remote_apply (SetDoc ?p body True) remote ?p = Some new
             \<and> (\<forall>k. map_of new k = (case map_of body k of Some v \<Rightarrow> Some v | None \<Rightarrow> map_of old k)))"
    by blast
  have title: "map_of body ''title'' = Some (JStr ''Nota 1'')"
    and pinned: "map_of body ''pinned'' = None"
    using b2 by (simp_all add: example_note_def)
  have "example_remote ?p = Some [(''title'', JStr ''old title''), (''pinned'', JBool True)]"
    by (simp add: example_remote_def)
  with m obtain new
    where n1: "remote_apply (SetDoc ?p body True) example_remote ?p = Some new"
      and n2: "\<forall>k. map_of new k =
          (case map_of body k of Some v \<Rightarrow> Some v
           | None \<Rightarrow> map_of [(''title'', JStr ''old title''), (''pinned'', JBool True)] k)"
    by blast
  have "map_of new ''pinned'' = Some (JBool True)" and "map_of new ''title'' = Some (JStr ''Nota 1'')"
    using n2 title pinned by simp_all
  with n1 have "\<exists>new. remote_apply (SetDoc ?p body True) example_remote ?p = Some new
              \<and> map_of new ''pinned'' = Some (JBool True)
              \<and> map_of new ''title'' = Some (JStr ''Nota 1'')"
    by simp
  moreover have "calls (snd (startSaveNotes example_env example_world)) = SetDoc ?p body True # rest"
    using c by (simp add: example_world_def)
  ultimately show ?thesis
    using h1 h2 h3 b1 title by blast
qed

subsection \<open>Resetting a landing-page section\<close>

lemma idToDispatchMap_get_Handler:
  "map_of idToDispatchMap s = Some h \<Longrightarrow> idToDispatchMap_get s = Handler h"
  by (simp add: idToDispatchMap_get_def)

lemma idToDispatchMap_get_Absent:
  "idToDispatchMap_get s = Absent \<longleftrightarrow>
     map_of idToDispatchMap s = None \<and> s \<noteq> ''constructor'' \<and> s \<notin> set Object_prototype_members"
  by (simp add: idToDispatchMap_get_def split: option.splits)

lemma inherited_not_registered:
  assumes "s \<in> set Object_prototype_members"
  shows "map_of idToDispatchMap s = None" and "idToDispatchMap_get s = Inherited"
proof -
  have "\<forall>k \<in> set Object_prototype_members. map_of idToDispatchMap k = None \<and> k \<noteq> ''constructor''"
    by (simp add: Object_prototype_members_def idToDispatchMap_def)
  with assms have none: "map_of idToDispatchMap s = None" and other: "s \<noteq> ''constructor''"
    by blast+
  show "map_of idToDispatchMap s = None"
    by (rule none)
  show "idToDispatchMap_get s = Inherited"
    using assms by (simp only: idToDispatchMap_get_def none other option.case if_False if_True)
qed

lemma unknown_key_absent: "idToDispatchMap_get ''unknown_key'' = Absent"
  by (simp add: idToDispatchMap_get_def idToDispatchMap_def Object_prototype_members_def)

text \<open>
  A key the read does not find, a reference the SDK accepts and a fetch that succeeds: the
  fetch is sent, \<^verbatim>\<open>setCanceling\<close> is the only action dispatched, the active section is not
  set, the canceling flag stays true and the operation resolves.
\<close>

lemma resetInfo_unregistered:
  assumes "idToDispatchMap_get section' = Absent"
    and "doc env (''er_landing_page/'' @ section') = Inr docRef"
    and "getDoc_response env docRef = Inr snap"
  shows "resetInfo env section' True w =
     (Inr (),
      w\<lparr>dispatched := dispatched w @ [Plain SetCanceling],
        calls := calls w @ [GetDoc docRef],
        store := (store w)\<lparr>dashboard := (dashboard (store w))\<lparr>isCanceling := True\<rparr>\<rparr>\<rparr>)"
  using assms by (simp add: resetInfo_def prog_defs)

text \<open>A path the SDK refuses, as for the default section: nothing is fetched, and the
  refusal is reported like any other failure.\<close>

lemma resetInfo_refused:
  assumes "doc env (''er_landing_page/'' @ section') = Inl e"
  shows "resetInfo env section' cancelled w =
     (Inl (Error ''Error reseteando la informacion!!''),
      w\<lparr>dispatched := dispatched w @ (if cancelled then [Plain SetCanceling] else []) @
            [Plain (HandleError (message e))],
        store := (store w)\<lparr>dashboard := (dashboard (store w))
           \<lparr>isCanceling := (cancelled \<or> isCanceling (dashboard (store w))),
             errorMessage := Some (message e)\<rparr>\<rparr>\<rparr>)"
  using assms by (simp add: resetInfo_def prog_defs)

lemma resetInfo_default_section:
  "fst (resetInfo env [] True w) = Inl (Error ''Error reseteando la informacion!!'')
   \<and> calls (snd (resetInfo env [] True w)) = calls w"
  using resetInfo_refused [OF doc_empty_section, of env True w] by simp

text \<open>
  The inherited \<^verbatim>\<open>constructor\<close> wraps the content in an object, which is dispatched as it
  is: the store refuses the empty object made for a document that does not exist, and a
  document that carries a \<^verbatim>\<open>type\<close> goes where the store sends it.
\<close>

lemma resetInfo_constructor:
  "getDoc_response env ''er_landing_page/constructor'' = Inr None \<Longrightarrow>
     fst (resetInfo env ''constructor'' True w) = Inl (Error ''Error reseteando la informacion!!'')"
  "getDoc_response env ''er_landing_page/constructor'' = Inr (Some al) \<Longrightarrow>
   map_of al ''type'' = Some (JStr t) \<Longrightarrow> dispatch_object env al = Inr None \<Longrightarrow>
     fst (resetInfo env ''constructor'' True w) = Inr ()
   \<and> dispatched (snd (resetInfo env ''constructor'' True w)) =
       dispatched w @ [Plain SetCanceling, Raw al, Plain (SetActiveSection (JObj al)),
                       Plain ResetIsCanceling]"
proof -
  have ref: "doc env (''er_landing_page/'' @ ''constructor'') = Inr ''er_landing_page/constructor''"
    using doc_landing_page [of "''constructor''" env] by (simp add: segment_def)
  have key: "idToDispatchMap_get ''constructor'' = Constructor"
    by (simp add: idToDispatchMap_get_def idToDispatchMap_def)
  show "fst (resetInfo env ''constructor'' True w) = Inl (Error ''Error reseteando la informacion!!'')"
    if "getDoc_response env ''er_landing_page/constructor'' = Inr None"
    using that ref key by (simp add: resetInfo_def prog_defs dispatch_plain_object_def)
  show "fst (resetInfo env ''constructor'' True w) = Inr ()
   \<and> dispatched (snd (resetInfo env ''constructor'' True w)) =
       dispatched w @ [Plain SetCanceling, Raw al, Plain (SetActiveSection (JObj al)),
                       Plain ResetIsCanceling]"
    if "getDoc_response env ''er_landing_page/constructor'' = Inr (Some al)"
      and "map_of al ''type'' = Some (JStr t)" and "dispatch_object env al = Inr None"
    using that ref key by (simp add: resetInfo_def prog_defs dispatch_plain_object_def Let_def)
qed

text \<open>
  C6.  The specification describes the operation on a key with no registered handler as a
  silent no-op.  The table is an object literal, so the read
  \<^verbatim>\<open>idToDispatchMap[section]\<close> also finds the members every object inherits.  For each of
  the inherited members listed in \<open>Object_prototype_members\<close> (\<^verbatim>\<open>toString\<close> is one), none
  of which is a registered key, the guard \<^verbatim>\<open>if (dispatchAction)\<close> passes, what is called
  is no action creator, and the operation ends in an error after the fetch: it dispatches
  \<^verbatim>\<open>setCanceling\<close> and \<^verbatim>\<open>handleError\<close> and leaves the canceling flag true.
\<close>

theorem resetInfo_inherited_member_fails:
  assumes "section' \<in> set Object_prototype_members"
    and "doc env (''er_landing_page/'' @ section') = Inr docRef"
    and "getDoc_response env docRef = Inr snap"
  shows "map_of idToDispatchMap section' = None
    \<and> resetInfo env section' True w =
       (Inl (Error ''Error reseteando la informacion!!''),
        w\<lparr>dispatched := dispatched w @
              [Plain SetCanceling, Plain (HandleError (message (inherited_member_error env section')))],
          calls := calls w @ [GetDoc docRef],
          store := (store w)\<lparr>dashboard := (dashboard (store w))
             \<lparr>isCanceling := True,
               errorMessage := Some (message (inherited_member_error env section'))\<rparr>\<rparr>\<rparr>)"
proof -
  note found = inherited_not_registered [OF assms(1)]
  show ?thesis
    using assms(2,3) found by (simp add: resetInfo_def prog_defs)
qed

theorem resetInfo_inherited_member_fails_witness:
  "''toString'' \<in> set Object_prototype_members
   \<and> map_of idToDispatchMap ''toString'' = None
   \<and> doc example_env (''er_landing_page/'' @ ''toString'') = Inr ''er_landing_page/toString''
   \<and> getDoc_response example_env ''er_landing_page/toString'' = Inr None
   \<and> fst (resetInfo example_env ''toString'' True example_world) =
       Inl (Error ''Error reseteando la informacion!!'')
   \<and> calls (snd (resetInfo example_env ''toString'' True example_world)) =
       [GetDoc ''er_landing_page/toString'']
   \<and> isCanceling (dashboard (store (snd (resetInfo example_env ''toString'' True example_world))))"
proof -
  have h1: "''toString'' \<in> set Object_prototype_members"
    by (simp add: Object_prototype_members_def)
  have h2: "doc example_env (''er_landing_page/'' @ ''toString'') = Inr ''er_landing_page/toString''"
    using doc_landing_page [of "''toString''" example_env] by (simp add: segment_def)
  have h3: "getDoc_response example_env ''er_landing_page/toString'' = Inr None"
    by (simp add: example_env_def)
  have "calls example_world = []"
    by (simp add: example_world_def)
  then show ?thesis
    using resetInfo_inherited_member_fails [OF h1 h2 h3, of example_world] h1 h2 h3
    by simp
qed

lemma dispatch_SetHeroSectionInfo_snapshot:
  "dispatch (SetHeroSectionInfo (data snap)) w =
     (Inl (case snap of
             None \<Rightarrow> TypeError ''Cannot read properties of undefined (reading 'find')''
           | Some al \<Rightarrow> TypeError ''action.payload.find is not a function''),
      w\<lparr>dispatched := dispatched w @ [Plain (SetHeroSectionInfo (data snap))]\<rparr>)"
  by (cases snap) (simp_all add: dispatch_def setHeroSectionInfo_def)

lemma heroSection_registered:
  "map_of idToDispatchMap ''heroSection'' = Some SetHeroSectionInfo"
  "idToDispatchMap_get ''heroSection'' = Handler SetHeroSectionInfo"
  "doc env (''er_landing_page/'' @ ''heroSection'') = Inr ''er_landing_page/heroSection''"
proof -
  show "map_of idToDispatchMap ''heroSection'' = Some SetHeroSectionInfo"
    by (simp add: idToDispatchMap_def)
  then show "idToDispatchMap_get ''heroSection'' = Handler SetHeroSectionInfo"
    by (rule idToDispatchMap_get_Handler)
  show "doc env (''er_landing_page/'' @ ''heroSection'') = Inr ''er_landing_page/heroSection''"
    using doc_landing_page [of "''heroSection''" env] by (simp add: segment_def)
qed

text \<open>
  C9.  The property is that, for every registered key, a document that does not exist is
  treated as a success.  \<^verbatim>\<open>heroSection\<close> is a registered key, and whenever its fetch
  succeeds, for a document that does not exist and for one that exists alike, the operation
  ends in an error: the content of a snapshot is \<^verbatim>\<open>undefined\<close> or an object, the handler's
  reducer searches its payload as an array and throws inside \<^verbatim>\<open>dispatch\<close>, the
  \<^verbatim>\<open>catch\<close> block reports that error and re-raises, \<^verbatim>\<open>setActiveSection\<close> is not
  dispatched and the canceling flag is not reset.
\<close>

theorem resetInfo_heroSection_fails:
  assumes "getDoc_response env ''er_landing_page/heroSection'' = Inr snap"
  shows "map_of idToDispatchMap ''heroSection'' = Some SetHeroSectionInfo
    \<and> fst (resetInfo env ''heroSection'' cancelled w) = Inl (Error ''Error reseteando la informacion!!'')
    \<and> dispatched (snd (resetInfo env ''heroSection'' cancelled w)) =
          dispatched w @ (if cancelled then [Plain SetCanceling] else []) @
            [Plain (SetHeroSectionInfo (data snap)),
             Plain (HandleError (case snap of
                None \<Rightarrow> ''Cannot read properties of undefined (reading 'find')''
              | Some al \<Rightarrow> ''action.payload.find is not a function''))]
    \<and> isCanceling (dashboard (store (snd (resetInfo env ''heroSection'' cancelled w)))) =
           (cancelled \<or> isCanceling (dashboard (store w)))"
proof (intro conjI)
  note reg = heroSection_registered(2) heroSection_registered(3) [of env, simplified]
  show "map_of idToDispatchMap ''heroSection'' = Some SetHeroSectionInfo"
    by (rule heroSection_registered(1))
  show "fst (resetInfo env ''heroSection'' cancelled w) = Inl (Error ''Error reseteando la informacion!!'')"
    using assms reg
    by (simp add: resetInfo_def prog_defs dispatch_SetHeroSectionInfo_snapshot)
  show "dispatched (snd (resetInfo env ''heroSection'' cancelled w)) =
          dispatched w @ (if cancelled then [Plain SetCanceling] else []) @
            [Plain (SetHeroSectionInfo (data snap)),
             Plain (HandleError (case snap of
                None \<Rightarrow> ''Cannot read properties of undefined (reading 'find')''
              | Some al \<Rightarrow> ''action.payload.find is not a function''))]"
    using assms reg
    by (cases snap) (simp_all add: resetInfo_def prog_defs dispatch_SetHeroSectionInfo_snapshot)
  show "isCanceling (dashboard (store (snd (resetInfo env ''heroSection'' cancelled w)))) =
           (cancelled \<or> isCanceling (dashboard (store w)))"
    using assms reg
    by (simp add: resetInfo_def prog_defs dispatch_SetHeroSectionInfo_snapshot)
qed

theorem resetInfo_heroSection_fails_witness:
  "map_of idToDispatchMap ''heroSection'' = Some SetHeroSectionInfo
   \<and> getDoc_response example_env ''er_landing_page/heroSection'' = Inr None
   \<and> fst (resetInfo example_env ''heroSection'' True example_world) =
       Inl (Error ''Error reseteando la informacion!!'')
   \<and> dispatched (snd (resetInfo example_env ''heroSection'' True example_world)) =
       [Plain SetCanceling, Plain (SetHeroSectionInfo JUndefined),
        Plain (HandleError ''Cannot read properties of undefined (reading 'find')'')]
   \<and> isCanceling (dashboard (store (snd (resetInfo example_env ''heroSection'' True example_world))))"
proof -
  have doc: "getDoc_response example_env ''er_landing_page/heroSection'' = Inr None"
    by (simp add: example_env_def)
  have "dispatched example_world = []"
    by (simp add: example_world_def)
  then show ?thesis
    using resetInfo_heroSection_fails [OF doc, of True example_world] doc
    by simp
qed

subsection \<open>Failures of the adapters\<close>

lemma startLoadingNotes_rejected:
  assumes "truthy (uid (auth (store w)))"
    and "loadNotes_response env (uid (auth (store w))) = Inl e"
  shows "startLoadingNotes env w =
     (Inl (Error ''Error cargando notas de la DB!''),
      w\<lparr>calls := calls w @ [LoadNotes (uid (auth (store w)))],
        dispatched := dispatched w @ [Plain (HandleError (message e))],
        store := (store w)\<lparr>dashboard := (dashboard (store w))\<lparr>errorMessage := Some (message e)\<rparr>\<rparr>\<rparr>)"
  using assms
  by (simp add: startLoadingNotes_def startLoadingNotes_begin_def startLoadingNotes_resume_def
        prog_defs Let_def)

lemma startLoadingNotes_resume_rejected:
  "startLoadingNotes_resume (Inl e) w =
     (Inl (Error ''Error cargando notas de la DB!''),
      w\<lparr>dispatched := dispatched w @ [Plain (HandleError (message e))],
        store := (store w)\<lparr>dashboard := (dashboard (store w))\<lparr>errorMessage := Some (message e)\<rparr>\<rparr>\<rparr>)"
  by (simp add: startLoadingNotes_resume_def prog_defs)

lemma startDeletingNote_refused:
  assumes "active (dashboard (store w)) = Some n"
    and "doc env (note_path (uid (auth (store w))) n) = Inl e"
  shows "startDeletingNote env w =
     (Inl (Error ''Error eliminando nota!!''),
      w\<lparr>dispatched := dispatched w @ [Plain SetSaving, Plain (HandleError (message e))],
        store := (store w)\<lparr>dashboard := (dashboard (store w))\<lparr>isSaving := True, errorMessage := Some (message e)\<rparr>\<rparr>\<rparr>)"
  using assms
  by (simp add: startDeletingNote_def prog_defs Let_def note_path_def)

lemma startDeletingNote_rejected:
  assumes "active (dashboard (store w)) = Some n"
    and "doc env (note_path (uid (auth (store w))) n) = Inr docRef"
    and "deleteDoc_response env docRef = Some e"
  shows "startDeletingNote env w =
     (Inl (Error ''Error eliminando nota!!''),
      w\<lparr>dispatched := dispatched w @ [Plain SetSaving, Plain (HandleError (message e))],
        calls := calls w @ [DeleteDoc docRef],
        store := (store w)\<lparr>dashboard := (dashboard (store w))\<lparr>isSaving := True, errorMessage := Some (message e)\<rparr>\<rparr>\<rparr>)"
  using assms
  by (simp add: startDeletingNote_def prog_defs Let_def note_path_def)

lemma resetInfo_fetch_rejected:
  assumes "doc env (''er_landing_page/'' @ section') = Inr docRef"
    and "getDoc_response env docRef = Inl e"
  shows "resetInfo env section' cancelled w =
     (Inl (Error ''Error reseteando la informacion!!''),
      w\<lparr>dispatched := dispatched w @ (if cancelled then [Plain SetCanceling] else []) @
            [Plain (HandleError (message e))],
        calls := calls w @ [GetDoc docRef],
        store := (store w)\<lparr>dashboard := (dashboard (store w))
           \<lparr>isCanceling := (cancelled \<or> isCanceling (dashboard (store w))),
             errorMessage := Some (message e)\<rparr>\<rparr>\<rparr>)"
  using assms by (simp add: resetInfo_def prog_defs)

lemma startUploadingFiles_rejected:
  assumes "Promise_all (fileUploadPromises env 0 files) = Inl e"
  shows "startUploadingFiles env files w =
     (Inl (Error ''Error subiendo imagen!!''),
      w\<lparr>dispatched := dispatched w @ [Plain SetSaving, Plain (HandleError (message e)), Plain ResetIsSaving],
        calls := calls w @ map FileUpload files,
        store := (store w)\<lparr>dashboard := (dashboard (store w))\<lparr>isSaving := False, errorMessage := Some (message e)\<rparr>\<rparr>\<rparr>)"
  using assms by (simp add: startUploadingFiles_def prog_defs)

text \<open>
  Whatever fails inside a \<^verbatim>\<open>try\<close> block is reported and re-raised: a request that is
  rejected, in each of the six thunks (for the uploads: when at least one upload is
  rejected, the error being the one of an upload that failed), and a reference the SDK
  refuses, in the three thunks that build it inside the block.
\<close>

lemma adapter_failures_reported:
  "(collection env (notes_path (uid (auth (store w)))) = Inr c
        \<and> setDoc_response env (c @ ''/'' @ newDocumentId env (notes_path (uid (auth (store w)))))
            (newNote_of env (length (notes (dashboard (store w))))) False = Some e \<longrightarrow>
      reported e ''Error guardando nueva entrada en la DB!'' w (startNewNote env w))
   \<and> (truthy (uid (auth (store w))) \<and> loadNotes_response env (uid (auth (store w))) = Inl e \<longrightarrow>
      reported e ''Error cargando notas de la DB!'' w (startLoadingNotes env w))
   \<and> reported e ''Error cargando notas de la DB!'' w (startLoadingNotes_resume (Inl e) w)
   \<and> (active (dashboard (store w)) = Some n
        \<and> doc env (note_path (uid (auth (store w))) n) = Inr docRef
        \<and> setDoc_response env docRef (AList.delete ''id'' n) True = Some e \<longrightarrow>
      reported e ''Error actualizando Note!!'' w (startSaveNotes env w))
   \<and> (active (dashboard (store w)) = Some n
        \<and> doc env (note_path (uid (auth (store w))) n) = Inl e \<longrightarrow>
      reported e ''Error actualizando Note!!'' w (startSaveNotes env w))
   \<and> ((\<exists>i < length files. isl (snd (fileUpload_response env i (files ! i)))) \<longrightarrow>
      (\<exists>e' j. j < length files \<and> snd (fileUpload_response env j (files ! j)) = Inl e'
         \<and> reported e' ''Error subiendo imagen!!'' w (startUploadingFiles env files w)))
   \<and> (active (dashboard (store w)) = Some n
        \<and> doc env (note_path (uid (auth (store w))) n) = Inr docRef
        \<and> deleteDoc_response env docRef = Some e \<longrightarrow>
      reported e ''Error eliminando nota!!'' w (startDeletingNote env w))
   \<and> (active (dashboard (store w)) = Some n
        \<and> doc env (note_path (uid (auth (store w))) n) = Inl e \<longrightarrow>
      reported e ''Error eliminando nota!!'' w (startDeletingNote env w))
   \<and> (doc env (''er_landing_page/'' @ section') = Inr landingRef
        \<and> getDoc_response env landingRef = Inl e \<longrightarrow>
      reported e ''Error reseteando la informacion!!'' w (resetInfo env section' cancelled w))
   \<and> (doc env (''er_landing_page/'' @ section') = Inl e \<longrightarrow>
      reported e ''Error reseteando la informacion!!'' w (resetInfo env section' cancelled w))"
proof (intro conjI impI)
  assume "collection env (notes_path (uid (auth (store w)))) = Inr c
        \<and> setDoc_response env (c @ ''/'' @ newDocumentId env (notes_path (uid (auth (store w)))))
            (newNote_of env (length (notes (dashboard (store w))))) False = Some e"
  then show "reported e ''Error guardando nueva entrada en la DB!'' w (startNewNote env w)"
    by (simp add: startNewNote_rejected reported_def)
next
  assume "truthy (uid (auth (store w))) \<and> loadNotes_response env (uid (auth (store w))) = Inl e"
  then show "reported e ''Error cargando notas de la DB!'' w (startLoadingNotes env w)"
    by (simp add: startLoadingNotes_rejected reported_def)
next
  show "reported e ''Error cargando notas de la DB!'' w (startLoadingNotes_resume (Inl e) w)"
    by (simp add: startLoadingNotes_resume_rejected reported_def)
next
  assume "active (dashboard (store w)) = Some n
        \<and> doc env (note_path (uid (auth (store w))) n) = Inr docRef
        \<and> setDoc_response env docRef (AList.delete ''id'' n) True = Some e"
  then show "reported e ''Error actualizando Note!!'' w (startSaveNotes env w)"
    by (simp add: startSaveNotes_rejected reported_def)
next
  assume "active (dashboard (store w)) = Some n
        \<and> doc env (note_path (uid (auth (store w))) n) = Inl e"
  then show "reported e ''Error actualizando Note!!'' w (startSaveNotes env w)"
    by (simp add: startSaveNotes_refused reported_def)
next
  assume "\<exists>i < length files. isl (snd (fileUpload_response env i (files ! i)))"
  then obtain e' j where rej: "Promise_all (fileUploadPromises env 0 files) = Inl e'"
    and j: "j < length files" "snd (fileUpload_response env j (files ! j)) = Inl e'"
    using Promise_all_rejected by blast
  have "reported e' ''Error subiendo imagen!!'' w (startUploadingFiles env files w)"
    by (simp add: startUploadingFiles_rejected [OF rej] reported_def)
  with j show "\<exists>e' j. j < length files \<and> snd (fileUpload_response env j (files ! j)) = Inl e'
         \<and> reported e' ''Error subiendo imagen!!'' w (startUploadingFiles env files w)"
    by blast
next
  assume "active (dashboard (store w)) = Some n
        \<and> doc env (note_path (uid (auth (store w))) n) = Inr docRef
        \<and> deleteDoc_response env docRef = Some e"
  then show "reported e ''Error eliminando nota!!'' w (startDeletingNote env w)"
    by (simp add: startDeletingNote_rejected reported_def)
next
  assume "active (dashboard (store w)) = Some n
        \<and> doc env (note_path (uid (auth (store w))) n) = Inl e"
  then show "reported e ''Error eliminando nota!!'' w (startDeletingNote env w)"
    by (simp add: startDeletingNote_refused reported_def)
next
  assume "doc env (''er_landing_page/'' @ section') = Inr landingRef
        \<and> getDoc_response env landingRef = Inl e"
  then show "reported e ''Error reseteando la informacion!!'' w (resetInfo env section' cancelled w)"
    by (simp add: resetInfo_fetch_rejected reported_def)
next
  assume "doc env (''er_landing_page/'' @ section') = Inl e"
  then show "reported e ''Error reseteando la informacion!!'' w (resetInfo env section' cancelled w)"
    by (simp add: resetInfo_refused reported_def)
qed

text \<open>
  C7.  The specification asks that every operation catches a failure raised by the adapter
  inside it, reports it with \<^verbatim>\<open>handleError\<close> and re-raises a new error.  \<open>startNewNote\<close>
  builds its reference with \<^verbatim>\<open>doc(collection(...))\<close> before its \<^verbatim>\<open>try\<close> block, where
  \<open>startSaveNotes\<close> and \<open>startDeletingNote\<close> build theirs inside.  When the SDK refuses the
  collection path, the error of the SDK leaves \<open>startNewNote\<close> as it is: \<^verbatim>\<open>savingNewNote\<close>
  is the only action dispatched, \<^verbatim>\<open>handleError\<close> is not, no new error is raised, nothing is
  sent and the saving flag stays set.
\<close>

theorem startNewNote_reference_failure_escapes:
  assumes "collection env (toString (uid (auth (store w))) @ ''/journal/notes'') = Inl e"
  shows "startNewNote env w =
       (Inl e,
        w\<lparr>dispatched := dispatched w @ [Plain SavingNewNote],
          store := (store w)\<lparr>dashboard := (dashboard (store w))\<lparr>isSaving := True\<rparr>\<rparr>\<rparr>)
    \<and> (\<forall>msg. \<not> reported e msg w (startNewNote env w))"
proof -
  have "collection env (notes_path (uid (auth (store w)))) = Inl e"
    using assms by (simp add: notes_path_def)
  then have run: "startNewNote env w =
       (Inl e,
        w\<lparr>dispatched := dispatched w @ [Plain SavingNewNote],
          store := (store w)\<lparr>dashboard := (dashboard (store w))\<lparr>isSaving := True\<rparr>\<rparr>\<rparr>)"
    by (rule startNewNote_refused)
  then show ?thesis
    by (simp add: reported_def)
qed

theorem startNewNote_reference_failure_escapes_witness:
  "collection example_env (toString (uid (auth (store empty_uid_world))) @ ''/journal/notes'') =
       Inl (refused_collection example_env ''/journal/notes'')
   \<and> fst (startNewNote example_env empty_uid_world) =
       Inl (refused_collection example_env ''/journal/notes'')
   \<and> dispatched (snd (startNewNote example_env empty_uid_world)) = [Plain SavingNewNote]
   \<and> calls (snd (startNewNote example_env empty_uid_world)) = []
   \<and> isSaving (dashboard (store (snd (startNewNote example_env empty_uid_world))))
   \<and> errorMessage (dashboard (store (snd (startNewNote example_env empty_uid_world)))) = None"
proof -
  have u: "uid (auth (store empty_uid_world)) = JStr []"
    by (simp add: example_defs)
  have h: "collection example_env (toString (uid (auth (store empty_uid_world))) @ ''/journal/notes'') =
       Inl (refused_collection example_env ''/journal/notes'')"
    using collection_empty_uid [of example_env] by (simp add: u notes_path_def)
  have "dispatched empty_uid_world = []" and "calls empty_uid_world = []"
    and "errorMessage (dashboard (store empty_uid_world)) = None"
    by (simp_all add: example_defs)
  then show ?thesis
    using startNewNote_reference_failure_escapes [OF h] h by simp
qed

end
